theory Spec2Isabelle
  imports Complex_Main
begin

section \<open>JavaScript values read from a JSON payload\<close>

text \<open>
  \<^verbatim>\<open>response.json()\<close> yields a value typed \<^verbatim>\<open>any\<close>. A number is modelled by the
  rational that its literal denotes (0.1 by one tenth); the rounding to a double is not
  modelled. For an object the parser keeps the last of several equal keys.
\<close>

datatype json =
    JNull
  | JBool bool
  | JNum rat
  | JStr string
  | JArr "json list"
  | JObj "(string \<times> json) list"

text \<open>The result of reading a property: \<open>None\<close> is JavaScript's \<^verbatim>\<open>undefined\<close>.\<close>

type_synonym jsval = "json option"

text \<open>
  What the code can throw: the built-in errors, a rejected network call, a credential
  that yields no token, and the two kinds of \<^verbatim>\<open>new Error(...)\<close> of the source, which
  carry the response status (and, for \<open>HttpError\<close>, the start of the message).
\<close>

datatype js_error =
    TypeError
  | SyntaxError
  | NetworkError
  | CredentialError
  | FetchFailed nat
  | HttpError string nat

text \<open>
  Truthiness as \<^verbatim>\<open>||\<close> tests it: \<^verbatim>\<open>undefined\<close>, \<^verbatim>\<open>null\<close>, \<^verbatim>\<open>false\<close>, \<^verbatim>\<open>0\<close> and
  \<^verbatim>\<open>""\<close> are falsy; every array and object is truthy.
\<close>

fun truthy :: "json \<Rightarrow> bool" where
  "truthy JNull = False"
| "truthy (JBool b) = b"
| "truthy (JNum r) = (r \<noteq> 0)"
| "truthy (JStr s) = (s \<noteq> [])"
| "truthy (JArr xs) = True"
| "truthy (JObj kvs) = True"

text \<open>\<^verbatim>\<open>a || b\<close> on two property reads, and \<^verbatim>\<open>a || d\<close> with a literal default \<open>d\<close>.\<close>

definition js_or :: "jsval \<Rightarrow> jsval \<Rightarrow> jsval" where
  "js_or a b = (case a of None \<Rightarrow> b | Some v \<Rightarrow> if truthy v then Some v else b)"

definition or_default :: "jsval \<Rightarrow> json \<Rightarrow> json" where
  "or_default a d = (case a of None \<Rightarrow> d | Some v \<Rightarrow> if truthy v then v else d)"

text \<open>
  \<^verbatim>\<open>doc.name\<close> for the five names the adapter reads (\<^verbatim>\<open>id\<close>, \<^verbatim>\<open>page_chunk\<close>,
  \<^verbatim>\<open>content\<close>, \<^verbatim>\<open>page_embedding_text_3_large\<close>, \<^verbatim>\<open>page_number\<close>): none of them is a
  built-in property of a string, an array, a number or a boolean, so only an object can
  hold one, and reading a property of \<^verbatim>\<open>null\<close> throws a TypeError.
\<close>

fun getField :: "json \<Rightarrow> string \<Rightarrow> js_error + jsval" where
  "getField JNull name = Inl TypeError"
| "getField (JObj kvs) name = Inr (map_of (rev kvs) name)"
| "getField v name = Inr None"

section \<open>Document Source Adapter\<close>

text \<open>
  The interface \<^verbatim>\<open>EarthAtNightDocument\<close>. Its fields are typed in TypeScript, but the
  adapter fills them from \<^verbatim>\<open>any\<close> values without a check, so at run time each holds
  whatever JSON value the payload carried.
\<close>

record EarthAtNightDocument =
  doc_id :: json
  page_chunk :: json
  page_embedding_text_3_large :: json
  page_number :: json

text \<open>\<^verbatim>\<open>String(n)\<close> for a non-negative integer: its decimal digits.\<close>

definition digit_char :: "nat \<Rightarrow> char" where
  "digit_char d = ''0123456789'' ! d"

function String_of_nat :: "nat \<Rightarrow> string" where
  "String_of_nat n =
     (if n < 10 then [digit_char n] else String_of_nat (n div 10) @ [digit_char (n mod 10)])"
  by pat_completeness auto
termination
  by (relation "measure (\<lambda>n. n)") auto

declare String_of_nat.simps [simp del]

text \<open>\<^verbatim>\<open>new Array(3072).fill(x)\<close>\<close>

definition filled_embedding :: "rat \<Rightarrow> json" where
  "filled_embedding x = JArr (replicate 3072 (JNum x))"

text \<open>
  The callback of \<^verbatim>\<open>documents.map\<close> in \<^verbatim>\<open>fetchEarthAtNightDocuments\<close>:
  \<^verbatim>\<open>
  (doc, index) => ({
      id: doc.id || String(index + 1),
      page_chunk: doc.page_chunk || doc.content || '',
      page_embedding_text_3_large: doc.page_embedding_text_3_large || new Array(3072).fill(0.1),
      page_number: doc.page_number || index + 1 })
  \<close>
  The first property read throws when \<open>doc\<close> is \<^verbatim>\<open>null\<close>; nothing else in it can throw.
\<close>

definition normalize :: "json \<Rightarrow> nat \<Rightarrow> js_error + EarthAtNightDocument" where
  "normalize doc index =
     (case getField doc ''id'' of
        Inl e \<Rightarrow> Inl e
      | Inr v_id \<Rightarrow>
          (case getField doc ''page_chunk'' of
             Inl e \<Rightarrow> Inl e
           | Inr v_chunk \<Rightarrow>
               (case getField doc ''content'' of
                  Inl e \<Rightarrow> Inl e
                | Inr v_content \<Rightarrow>
                    (case getField doc ''page_embedding_text_3_large'' of
                       Inl e \<Rightarrow> Inl e
                     | Inr v_emb \<Rightarrow>
                         (case getField doc ''page_number'' of
                            Inl e \<Rightarrow> Inl e
                          | Inr v_num \<Rightarrow>
                              Inr \<lparr> doc_id = or_default v_id (JStr (String_of_nat (index + 1))),
                                    page_chunk = or_default (js_or v_chunk v_content) (JStr ''''),
                                    page_embedding_text_3_large =
                                      or_default v_emb (filled_embedding (1 / 10)),
                                    page_number =
                                      or_default v_num (JNum (of_nat (index + 1))) \<rparr>)))))"

text \<open>\<^verbatim>\<open>documents.map(callback)\<close> over the elements, left to right, from position \<open>i\<close>.\<close>

fun transformDocuments :: "nat \<Rightarrow> json list \<Rightarrow> js_error + EarthAtNightDocument list" where
  "transformDocuments i [] = Inr []"
| "transformDocuments i (doc # docs) =
     (case normalize doc i of
        Inl e \<Rightarrow> Inl e
      | Inr d \<Rightarrow>
          (case transformDocuments (Suc i) docs of
             Inl e \<Rightarrow> Inl e
           | Inr ds \<Rightarrow> Inr (d # ds)))"

text \<open>
  What \<^verbatim>\<open>await fetch(documentsUrl)\<close> can give: the promise rejects (no response at all),
  or a response with a status and a body; the body is \<open>None\<close> when it is not JSON text,
  so that \<^verbatim>\<open>response.json()\<close> rejects with a SyntaxError.
\<close>

datatype fetch_outcome =
    FetchRejected
  | FetchResponse nat "json option"

text \<open>\<^verbatim>\<open>response.ok\<close> of the Fetch API: the status is in the range 200 to 299.\<close>

definition response_ok :: "nat \<Rightarrow> bool" where
  "response_ok status = (200 \<le> status \<and> status \<le> 299)"

definition fallbackDocuments :: "EarthAtNightDocument list" where
  "fallbackDocuments =
     [ \<lparr> doc_id = JStr ''1'',
         page_chunk = JStr ''The Earth at night reveals the patterns of human settlement and economic activity. City lights trace the contours of civilization, creating a luminous map of where people live and work.'',
         page_embedding_text_3_large = filled_embedding (1 / 10),
         page_number = JNum 1 \<rparr>,
       \<lparr> doc_id = JStr ''2'',
         page_chunk = JStr ''From space, the aurora borealis appears as shimmering curtains of green and blue light dancing across the polar regions.'',
         page_embedding_text_3_large = filled_embedding (2 / 10),
         page_number = JNum 2 \<rparr> ]"

text \<open>
  The body of the \<^verbatim>\<open>try\<close> block of \<^verbatim>\<open>fetchEarthAtNightDocuments\<close>. Reading
  \<^verbatim>\<open>documents.length\<close> throws on \<^verbatim>\<open>null\<close>; \<^verbatim>\<open>documents.map(...)\<close> throws unless
  \<open>documents\<close> is an array (a parsed object can hold a key \<^verbatim>\<open>map\<close>, never a function).
\<close>

definition fetchEarthAtNightDocuments_try ::
  "fetch_outcome \<Rightarrow> js_error + EarthAtNightDocument list" where
  "fetchEarthAtNightDocuments_try outcome =
     (case outcome of
        FetchRejected \<Rightarrow> Inl NetworkError
      | FetchResponse status body \<Rightarrow>
          if \<not> response_ok status then Inl (FetchFailed status)
          else (case body of
                  None \<Rightarrow> Inl SyntaxError
                | Some documents \<Rightarrow>
                    (case documents of
                       JArr docs \<Rightarrow> transformDocuments 0 docs
                     | _ \<Rightarrow> Inl TypeError)))"

text \<open>The whole function: the \<^verbatim>\<open>catch\<close> block logs and returns the two sample documents.\<close>

definition fetchEarthAtNightDocuments ::
  "fetch_outcome \<Rightarrow> js_error + EarthAtNightDocument list" where
  "fetchEarthAtNightDocuments outcome =
     (case fetchEarthAtNightDocuments_try outcome of
        Inl e \<Rightarrow> Inr fallbackDocuments
      | Inr documents \<Rightarrow> Inr documents)"

text \<open>
  The document fetch of the top-level script \<^verbatim>\<open>src/index.ts\<close>, which has no
  \<^verbatim>\<open>try\<close> around it:
  \<^verbatim>\<open>
  const response = await fetch(url);
  if (!response.ok) { throw new Error(`Failed to fetch documents: ...`); }
  const documents = await response.json() as any[];
  \<close>
\<close>

definition script_fetchDocuments :: "fetch_outcome \<Rightarrow> js_error + json" where
  "script_fetchDocuments outcome =
     (case outcome of
        FetchRejected \<Rightarrow> Inl NetworkError
      | FetchResponse status body \<Rightarrow>
          if \<not> response_ok status then Inl (FetchFailed status)
          else (case body of None \<Rightarrow> Inl SyntaxError | Some documents \<Rightarrow> Inr documents))"

section \<open>Indexing Convergence Monitor\<close>

text \<open>
  The top-level script that uploads through the buffered sender waits for the index:
  \<^verbatim>\<open>
  await delay(WAIT_TIME);
  let count = await searchClient.getDocumentsCount();
  while (count !== documents.length) {
      await delay(WAIT_TIME);
      count = await searchClient.getDocumentsCount();
  }
  \<close>
  The index is a sequence \<open>reported\<close>: \<open>reported k\<close> is the count that call number \<open>k\<close> of
  \<^verbatim>\<open>getDocumentsCount\<close> returns, counting from 0; every read is taken to return a count.
  The trace records every delay and every read. The loop may run forever, so its result
  is an option: \<open>None\<close> when it never returns.
\<close>

definition WAIT_TIME :: nat where
  "WAIT_TIME = 4000"

datatype poll_event = Delay nat | GetDocumentsCount int

text \<open>The \<^verbatim>\<open>while\<close> loop, entered after \<open>k\<close> reads with \<open>count\<close> the last one.\<close>

partial_function (option) poll_loop ::
  "(nat \<Rightarrow> int) \<Rightarrow> int \<Rightarrow> nat \<Rightarrow> int \<Rightarrow> poll_event list \<Rightarrow> (int \<times> poll_event list) option" where
  "poll_loop reported expected k count trace =
     (if count \<noteq> expected
      then poll_loop reported expected (Suc k) (reported k)
             (trace @ [Delay WAIT_TIME, GetDocumentsCount (reported k)])
      else Some (count, trace))"

declare poll_loop.simps [code]

text \<open>The first delay and read, then the loop; \<open>documents.length\<close> is the expected count.\<close>

definition awaitConvergence :: "(nat \<Rightarrow> int) \<Rightarrow> 'a list \<Rightarrow> (int \<times> poll_event list) option" where
  "awaitConvergence reported documents =
     poll_loop reported (int (length documents)) 1 (reported 0)
       [Delay WAIT_TIME, GetDocumentsCount (reported 0)]"

text \<open>The trace of \<open>n\<close> rounds of delay and read, and the counts read in a trace.\<close>

fun polls :: "(nat \<Rightarrow> int) \<Rightarrow> nat \<Rightarrow> poll_event list" where
  "polls reported 0 = []"
| "polls reported (Suc n) = polls reported n @ [Delay WAIT_TIME, GetDocumentsCount (reported n)]"

fun reads_of :: "poll_event list \<Rightarrow> int list" where
  "reads_of [] = []"
| "reads_of (Delay t # es) = reads_of es"
| "reads_of (GetDocumentsCount c # es) = c # reads_of es"

section \<open>The search service as the code reaches it\<close>

text \<open>The fields of \<^verbatim>\<open>config\<close> that the modelled functions read.\<close>

record config =
  searchEndpoint :: string
  azureOpenAIEndpoint :: string
  azureOpenAIGptDeployment :: string
  azureOpenAIGptModel :: string
  indexName :: string
  knowledgeSourceName :: string
  knowledgeBaseName :: string
  searchApiVersion :: string

text \<open>
  A call of \<^verbatim>\<open>fetch(url, { method, headers, body })\<close>. The body is the object handed to
  \<^verbatim>\<open>JSON.stringify\<close>; the headers (content type and bearer token) are left out. A
  response has a status and a body, \<open>None\<close> when the body is not JSON text.
\<close>

datatype http_method = GET | POST | PUT | DELETE

record http_request =
  req_method :: http_method
  url :: string
  body :: "json option"

record http_response =
  status :: nat
  payload :: "json option"

text \<open>
  The service is a parameter: from its state and a request it gives a response, or
  rejects the call, and its next state. The world threads the state of the service and
  records every request sent, in order.
\<close>

type_synonym 's service = "'s \<Rightarrow> http_request \<Rightarrow> (js_error + http_response) \<times> 's"

record 's world =
  remote :: 's
  sent :: "http_request list"

definition fetch ::
  "'s service \<Rightarrow> http_request \<Rightarrow> 's world \<Rightarrow> (js_error + http_response) \<times> 's world" where
  "fetch srv req w =
     (case srv (remote w) req of
        (r, s') \<Rightarrow> (r, \<lparr> remote = s', sent = sent w @ [req] \<rparr>))"

definition knowledgeSourceUrl :: "config \<Rightarrow> string" where
  "knowledgeSourceUrl cfg =
     searchEndpoint cfg @ ''/knowledgesources/'' @ knowledgeSourceName cfg @
     ''?api-version='' @ searchApiVersion cfg"

definition knowledgeSourcesUrl :: "config \<Rightarrow> string" where
  "knowledgeSourcesUrl cfg =
     searchEndpoint cfg @ ''/knowledgesources?api-version='' @ searchApiVersion cfg"

definition knowledgeBaseUrl :: "config \<Rightarrow> string" where
  "knowledgeBaseUrl cfg =
     searchEndpoint cfg @ ''/knowledgebases/'' @ knowledgeBaseName cfg @
     ''?api-version='' @ searchApiVersion cfg"

definition retrieveUrl :: "config \<Rightarrow> string" where
  "retrieveUrl cfg =
     searchEndpoint cfg @ ''/knowledgebases/'' @ knowledgeBaseName cfg @
     ''/retrieve?api-version='' @ searchApiVersion cfg"

section \<open>Knowledge Registration\<close>

text \<open>
  \<^verbatim>\<open>createKnowledgeSource\<close>: the token is awaited first (\<open>Inl\<close> when
  \<^verbatim>\<open>credential.getToken\<close> rejects), then the source is probed with GET;
  \<^verbatim>\<open>if (getResponse.ok) return;\<close> and otherwise the definition is posted and
  \<^verbatim>\<open>if (!response.ok) throw new Error(...)\<close>. The \<^verbatim>\<open>catch\<close> block logs and
  rethrows, so every error reaches the caller.
\<close>

definition knowledgeSourceDefinition :: "config \<Rightarrow> json" where
  "knowledgeSourceDefinition cfg =
     JObj [(''name'', JStr (knowledgeSourceName cfg)),
           (''description'', JStr ''Knowledge source for Earth at Night e-book content''),
           (''kind'', JStr ''searchIndex''),
           (''searchIndexParameters'',
              JObj [(''searchIndexName'', JStr (indexName cfg)),
                    (''sourceDataFields'',
                       JArr [JObj [(''name'', JStr ''id'')],
                             JObj [(''name'', JStr ''page_number'')]])])]"

definition knowledgeSourceProbe :: "config \<Rightarrow> http_request" where
  "knowledgeSourceProbe cfg = \<lparr> req_method = GET, url = knowledgeSourceUrl cfg, body = None \<rparr>"

definition knowledgeSourceCreate :: "config \<Rightarrow> http_request" where
  "knowledgeSourceCreate cfg =
     \<lparr> req_method = POST, url = knowledgeSourcesUrl cfg, body = Some (knowledgeSourceDefinition cfg) \<rparr>"

definition createKnowledgeSource ::
  "config \<Rightarrow> js_error + string \<Rightarrow> 's service \<Rightarrow> 's world \<Rightarrow> (js_error + unit) \<times> 's world" where
  "createKnowledgeSource cfg token srv w =
     (case token of
        Inl e \<Rightarrow> (Inl e, w)
      | Inr tok \<Rightarrow>
          (case fetch srv (knowledgeSourceProbe cfg) w of
             (Inl e, w1) \<Rightarrow> (Inl e, w1)
           | (Inr getResponse, w1) \<Rightarrow>
               if response_ok (status getResponse) then (Inr (), w1)
               else
                 (case fetch srv (knowledgeSourceCreate cfg) w1 of
                    (Inl e, w2) \<Rightarrow> (Inl e, w2)
                  | (Inr response, w2) \<Rightarrow>
                      if \<not> response_ok (status response)
                      then (Inl (HttpError ''Failed to create knowledge source'' (status response)), w2)
                      else (Inr (), w2))))"

text \<open>
  \<^verbatim>\<open>createKnowledgeBase\<close> probes with GET only to choose the word it logs, and always
  sends the definition with PUT. The source builds the definition from \<^verbatim>\<open>config\<close> and
  a literal instruction text; the text is a parameter here, and \<open>createKnowledgeBase\<close>
  is the function at the literal of the source.
\<close>

definition answerInstructions :: string where
  "answerInstructions =
     ''Provide a two sentence concise and informative answer based on the retrieved documents.''"

definition knowledgeBaseDefinition :: "config \<Rightarrow> string \<Rightarrow> json" where
  "knowledgeBaseDefinition cfg instructions =
     JObj [(''name'', JStr (knowledgeBaseName cfg)),
           (''knowledgeSources'', JArr [JObj [(''name'', JStr (knowledgeSourceName cfg))]]),
           (''models'',
              JArr [JObj [(''kind'', JStr ''azureOpenAI''),
                          (''azureOpenAIParameters'',
                             JObj [(''resourceUri'', JStr (azureOpenAIEndpoint cfg)),
                                   (''deploymentId'', JStr (azureOpenAIGptDeployment cfg)),
                                   (''modelName'', JStr (azureOpenAIGptModel cfg))])]]),
           (''outputMode'', JStr ''answerSynthesis''),
           (''answerInstructions'', JStr instructions)]"

definition knowledgeBaseProbe :: "config \<Rightarrow> http_request" where
  "knowledgeBaseProbe cfg = \<lparr> req_method = GET, url = knowledgeBaseUrl cfg, body = None \<rparr>"

definition knowledgeBasePut :: "config \<Rightarrow> string \<Rightarrow> http_request" where
  "knowledgeBasePut cfg instructions =
     \<lparr> req_method = PUT, url = knowledgeBaseUrl cfg,
       body = Some (knowledgeBaseDefinition cfg instructions) \<rparr>"

definition createKnowledgeBaseWith ::
  "string \<Rightarrow> config \<Rightarrow> js_error + string \<Rightarrow> 's service \<Rightarrow> 's world \<Rightarrow>
     (js_error + unit) \<times> 's world" where
  "createKnowledgeBaseWith instructions cfg token srv w =
     (case token of
        Inl e \<Rightarrow> (Inl e, w)
      | Inr tok \<Rightarrow>
          (case fetch srv (knowledgeBaseProbe cfg) w of
             (Inl e, w1) \<Rightarrow> (Inl e, w1)
           | (Inr getResponse, w1) \<Rightarrow>
               (case fetch srv (knowledgeBasePut cfg instructions) w1 of
                  (Inl e, w2) \<Rightarrow> (Inl e, w2)
                | (Inr response, w2) \<Rightarrow>
                    if \<not> response_ok (status response)
                    then (Inl (HttpError ''Failed to create knowledge base'' (status response)), w2)
                    else (Inr (), w2))))"

definition createKnowledgeBase ::
  "config \<Rightarrow> js_error + string \<Rightarrow> 's service \<Rightarrow> 's world \<Rightarrow> (js_error + unit) \<times> 's world" where
  "createKnowledgeBase = createKnowledgeBaseWith answerInstructions"

text \<open>A call that was answered with a status in the range 200 to 299.\<close>

definition request_ok :: "js_error + http_response \<Rightarrow> bool" where
  "request_ok r = (case r of Inl e \<Rightarrow> False | Inr response \<Rightarrow> response_ok (status response))"

section \<open>Retrieval Session\<close>

text \<open>
  The conversation is an array of messages that \<^verbatim>\<open>runAgenticRetrieval\<close> creates and
  \<^verbatim>\<open>continueConversation\<close> extends with \<^verbatim>\<open>push\<close>; the functions here return it.
\<close>

datatype message_role = User | Assistant | System

record KnowledgeAgentMessage =
  role :: message_role
  content :: string

definition role_name :: "message_role \<Rightarrow> string" where
  "role_name r = (case r of User \<Rightarrow> ''user'' | Assistant \<Rightarrow> ''assistant'' | System \<Rightarrow> ''system'')"

text \<open>
  \<^verbatim>\<open>callAgenticRetrieval\<close>: every message becomes
  \<^verbatim>\<open>{ role, content: [{ type: "text", text }] }\<close>, the request is posted, a status
  outside 200 to 299 throws, and the parsed body is returned.
\<close>

definition agentMessage :: "KnowledgeAgentMessage \<Rightarrow> json" where
  "agentMessage msg =
     JObj [(''role'', JStr (role_name (role msg))),
           (''content'', JArr [JObj [(''type'', JStr ''text''), (''text'', JStr (content msg))]])]"

definition retrievalRequest :: "config \<Rightarrow> KnowledgeAgentMessage list \<Rightarrow> json" where
  "retrievalRequest cfg messages =
     JObj [(''messages'', JArr (map agentMessage messages)),
           (''knowledgeSourceParams'',
              JArr [JObj [(''knowledgeSourceName'', JStr (knowledgeSourceName cfg)),
                          (''kind'', JStr ''searchIndex''),
                          (''includeReferences'', JBool True),
                          (''includeReferenceSourceData'', JBool True),
                          (''alwaysQuerySource'', JBool True),
                          (''rerankerThreshold'', JNum (5 / 2))]]),
           (''includeActivity'', JBool True),
           (''retrievalReasoningEffort'', JObj [(''kind'', JStr ''low'')])]"

definition retrievePost :: "config \<Rightarrow> KnowledgeAgentMessage list \<Rightarrow> http_request" where
  "retrievePost cfg messages =
     \<lparr> req_method = POST, url = retrieveUrl cfg, body = Some (retrievalRequest cfg messages) \<rparr>"

definition callAgenticRetrieval ::
  "config \<Rightarrow> js_error + string \<Rightarrow> 's service \<Rightarrow> KnowledgeAgentMessage list \<Rightarrow> 's world \<Rightarrow>
     (js_error + json) \<times> 's world" where
  "callAgenticRetrieval cfg token srv messages w =
     (case token of
        Inl e \<Rightarrow> (Inl e, w)
      | Inr tok \<Rightarrow>
          (case fetch srv (retrievePost cfg messages) w of
             (Inl e, w1) \<Rightarrow> (Inl e, w1)
           | (Inr response, w1) \<Rightarrow>
               if \<not> response_ok (status response)
               then (Inl (HttpError ''Agentic retrieval failed'' (status response)), w1)
               else (case payload response of
                       None \<Rightarrow> (Inl SyntaxError, w1)
                     | Some retrievalResponse \<Rightarrow> (Inr retrievalResponse, w1))))"

text \<open>
  \<^verbatim>\<open>extractAssistantContent\<close>: a string is returned as it is, an array through
  \<^verbatim>\<open>JSON.stringify\<close> (a parameter here), anything else gives the empty string.
\<close>

definition extractAssistantContent :: "(json \<Rightarrow> string) \<Rightarrow> jsval \<Rightarrow> string" where
  "extractAssistantContent stringify response =
     (case response of
        Some (JStr s) \<Rightarrow> s
      | Some (JArr xs) \<Rightarrow> stringify (JArr xs)
      | _ \<Rightarrow> '''')"

text \<open>
  \<^verbatim>\<open>printActivities\<close> and \<^verbatim>\<open>printReferences\<close> only log, but they read a property
  of every element of the array, which throws on a \<^verbatim>\<open>null\<close> element.
  \<^verbatim>\<open>printFormattedAnswer\<close> cannot throw and is left out.
\<close>

definition printRecords :: "string \<Rightarrow> json \<Rightarrow> js_error + unit" where
  "printRecords name response =
     (case getField response name of
        Inl e \<Rightarrow> Inl e
      | Inr (Some (JArr records)) \<Rightarrow> if list_ex (\<lambda>r. r = JNull) records then Inl TypeError else Inr ()
      | Inr _ \<Rightarrow> Inr ())"

definition followUpQuestion :: string where
  "followUpQuestion = ''How do I find lava at night?''"

definition systemPrompt :: string where
  "systemPrompt = ''A Q&A agent that can answer questions about the Earth at night.'' @ [CHR 0x0A] @
     ''Sources have a JSON format with a ref_id that must be cited in the answer.'' @ [CHR 0x0A] @
     ''If you do not have the answer, respond with '' @ [CHR 0x22] @ ''I don'' @ [CHR 0x27] @ ''t know'' @ [CHR 0x22] @ ''.''"

definition firstQuestion :: string where
  "firstQuestion = ''Why do suburban belts display larger December brightening than urban cores even though absolute light levels are higher downtown? Why is the Phoenix nighttime street grid is so sharply visible from space, whereas large stretches of the interstate between midwestern cities remain comparatively dim?''"

text \<open>
  \<^verbatim>\<open>continueConversation\<close> pushes the follow-up question, sends every message that
  is not a system message, and pushes the reply.
\<close>

definition continueConversation ::
  "config \<Rightarrow> (json \<Rightarrow> string) \<Rightarrow> js_error + string \<Rightarrow> 's service \<Rightarrow>
     KnowledgeAgentMessage list \<Rightarrow> 's world \<Rightarrow> (js_error + KnowledgeAgentMessage list) \<times> 's world" where
  "continueConversation cfg stringify token srv messages w =
     (let messages1 = messages @ [\<lparr> role = User, content = followUpQuestion \<rparr>];
          userAssistantMessages = filter (\<lambda>m. role m \<noteq> System) messages1
      in case callAgenticRetrieval cfg token srv userAssistantMessages w of
           (Inl e, w1) \<Rightarrow> (Inl e, w1)
         | (Inr newRetrievalResponse, w1) \<Rightarrow>
             (case getField newRetrievalResponse ''response'' of
                Inl e \<Rightarrow> (Inl e, w1)
              | Inr response \<Rightarrow>
                  (let assistantContent = extractAssistantContent stringify response;
                       messages2 = messages1 @ [\<lparr> role = Assistant, content = assistantContent \<rparr>]
                   in case printRecords ''activity'' newRetrievalResponse of
                        Inl e \<Rightarrow> (Inl e, w1)
                      | Inr u \<Rightarrow>
                          (case printRecords ''references'' newRetrievalResponse of
                             Inl e \<Rightarrow> (Inl e, w1)
                           | Inr u' \<Rightarrow> (Inr messages2, w1)))))"

text \<open>
  \<^verbatim>\<open>runAgenticRetrieval\<close> starts from the system prompt and the first question, sends
  the messages that are not system messages, pushes the reply and continues.
\<close>

definition initialMessages :: "KnowledgeAgentMessage list" where
  "initialMessages =
     [\<lparr> role = System, content = systemPrompt \<rparr>, \<lparr> role = User, content = firstQuestion \<rparr>]"

definition runAgenticRetrieval ::
  "config \<Rightarrow> (json \<Rightarrow> string) \<Rightarrow> js_error + string \<Rightarrow> 's service \<Rightarrow> 's world \<Rightarrow>
     (js_error + KnowledgeAgentMessage list) \<times> 's world" where
  "runAgenticRetrieval cfg stringify token srv w =
     (let messages = initialMessages;
          userMessages = filter (\<lambda>m. role m \<noteq> System) messages
      in case callAgenticRetrieval cfg token srv userMessages w of
           (Inl e, w1) \<Rightarrow> (Inl e, w1)
         | (Inr retrievalResponse, w1) \<Rightarrow>
             (case getField retrievalResponse ''response'' of
                Inl e \<Rightarrow> (Inl e, w1)
              | Inr response \<Rightarrow>
                  (let assistantContent = extractAssistantContent stringify response;
                       messages1 = messages @ [\<lparr> role = Assistant, content = assistantContent \<rparr>]
                   in case printRecords ''activity'' retrievalResponse of
                        Inl e \<Rightarrow> (Inl e, w1)
                      | Inr u \<Rightarrow>
                          (case printRecords ''references'' retrievalResponse of
                             Inl e \<Rightarrow> (Inl e, w1)
                           | Inr u' \<Rightarrow> continueConversation cfg stringify token srv messages1 w1))))"

section \<open>The upload script\<close>

text \<open>
  The top-level script that uploads through \<^verbatim>\<open>SearchIndexingBufferedSender\<close> and then
  calls \<^verbatim>\<open>flush\<close> and \<^verbatim>\<open>dispose\<close> is straight-line code with no \<^verbatim>\<open>try\<close>: it awaits
  one call after the other, and the first one that throws ends the run. \<open>resolves c\<close>
  says whether the call \<open>c\<close> returns; \<open>FetchDocuments\<close> stands for the fetch, the check
  of \<^verbatim>\<open>response.ok\<close> and \<^verbatim>\<open>response.json()\<close> together. The trace holds every call
  made, the one that threw included.
\<close>

datatype sdk_call =
    CreateOrUpdateIndex
  | FetchDocuments
  | NewBufferedSender
  | UploadDocuments
  | Flush
  | Dispose
  | CreateKnowledgeSourceCall
  | CreateKnowledgeBaseCall
  | RetrieveKnowledge json
  | DeleteKnowledgeBase
  | DeleteKnowledgeSource
  | DeleteIndex

datatype script_event = Call sdk_call | Poll poll_event

fun run_calls :: "(sdk_call \<Rightarrow> bool) \<Rightarrow> sdk_call list \<Rightarrow> sdk_call list \<times> bool" where
  "run_calls resolves [] = ([], True)"
| "run_calls resolves (c # cs) =
     (if resolves c
      then (case run_calls resolves cs of (t, done) \<Rightarrow> (c # t, done))
      else ([c], False))"

text \<open>
  The request objects \<^verbatim>\<open>retrievalRequest\<close> and \<^verbatim>\<open>retrievalRequest2\<close> that the
  top-level scripts hand to \<^verbatim>\<open>retrieveKnowledge\<close>: each is a literal with one user
  message, the query.
\<close>

definition script_retrievalRequest :: "string \<Rightarrow> json" where
  "script_retrievalRequest query =
     JObj [(''messages'', JArr [agentMessage \<lparr> role = User, content = query \<rparr>]),
           (''knowledgeSourceParams'',
              JArr [JObj [(''kind'', JStr ''searchIndex''),
                          (''knowledgeSourceName'', JStr ''earth-knowledge-source''),
                          (''includeReferences'', JBool True),
                          (''includeReferenceSourceData'', JBool True),
                          (''alwaysQuerySource'', JBool True),
                          (''rerankerThreshold'', JNum (5 / 2))]]),
           (''includeActivity'', JBool True),
           (''retrievalReasoningEffort'', JObj [(''kind'', JStr ''low'')])]"

text \<open>The calls before and after the wait for the index, in the order of the script.\<close>

definition upload_calls :: "sdk_call list" where
  "upload_calls =
     [CreateOrUpdateIndex, FetchDocuments, NewBufferedSender, UploadDocuments, Flush, Dispose]"

definition retrieval_calls :: "sdk_call list" where
  "retrieval_calls =
     [CreateKnowledgeSourceCall, CreateKnowledgeBaseCall,
      RetrieveKnowledge (script_retrievalRequest firstQuestion),
      RetrieveKnowledge (script_retrievalRequest followUpQuestion),
      DeleteKnowledgeBase, DeleteKnowledgeSource, DeleteIndex]"

text \<open>
  The run: \<open>None\<close> when the wait for the index never ends, otherwise the trace and
  whether the script reached its end.
\<close>

definition upload_script ::
  "(sdk_call \<Rightarrow> bool) \<Rightarrow> (nat \<Rightarrow> int) \<Rightarrow> json list \<Rightarrow> (script_event list \<times> bool) option" where
  "upload_script resolves reported documents =
     (case run_calls resolves upload_calls of
        (t1, False) \<Rightarrow> Some (map Call t1, False)
      | (t1, True) \<Rightarrow>
          (case awaitConvergence reported documents of
             None \<Rightarrow> None
           | Some (count, polled) \<Rightarrow>
               (case run_calls resolves retrieval_calls of
                  (t2, done) \<Rightarrow> Some (map Call t1 @ map Poll polled @ map Call t2, done))))"

text \<open>
  The script \<^verbatim>\<open>src/index.ts\<close> differs in the upload: it constructs the sender, awaits
  \<^verbatim>\<open>uploadDocuments\<close>, waits 4000 ms once and goes on; it has no call of \<^verbatim>\<open>flush\<close>
  or \<^verbatim>\<open>dispose\<close> and no polling loop.
\<close>

definition quickstart_calls :: "sdk_call list" where
  "quickstart_calls = [CreateOrUpdateIndex, FetchDocuments, NewBufferedSender, UploadDocuments]"

definition quickstart_script :: "(sdk_call \<Rightarrow> bool) \<Rightarrow> script_event list \<times> bool" where
  "quickstart_script resolves =
     (case run_calls resolves quickstart_calls of
        (t1, False) \<Rightarrow> (map Call t1, False)
      | (t1, True) \<Rightarrow>
          (case run_calls resolves retrieval_calls of
             (t2, done) \<Rightarrow> (map Call t1 @ [Poll (Delay 4000)] @ map Call t2, done)))"

section \<open>Services and a configuration for concrete runs\<close>

text \<open>
  A service with one resource (GET finds it once POST or PUT created it), a service that
  gives the responses of a list in their order, and a configuration.
\<close>

definition flag_service :: "bool service" where
  "flag_service s req =
     (case req_method req of
        GET \<Rightarrow> (Inr \<lparr> status = (if s then 200 else 404), payload = None \<rparr>, s)
      | POST \<Rightarrow> (Inr \<lparr> status = 201, payload = None \<rparr>, True)
      | PUT \<Rightarrow> (Inr \<lparr> status = (if s then 200 else 201), payload = None \<rparr>, True)
      | DELETE \<Rightarrow> (Inr \<lparr> status = (if s then 204 else 404), payload = None \<rparr>, False))"

definition scripted_service :: "(js_error + http_response) list service" where
  "scripted_service s req =
     (case s of [] \<Rightarrow> (Inl NetworkError, []) | r # rs \<Rightarrow> (r, rs))"

definition test_config :: config where
  "test_config =
     \<lparr> searchEndpoint = ''https://s'', azureOpenAIEndpoint = ''https://o'',
       azureOpenAIGptDeployment = ''gpt'', azureOpenAIGptModel = ''gpt'',
       indexName = ''earth_at_night'', knowledgeSourceName = ''earth-knowledge-source'',
       knowledgeBaseName = ''earth-knowledge-base'', searchApiVersion = ''2025-11-01-preview'' \<rparr>"

definition answered :: "nat \<Rightarrow> js_error + http_response" where
  "answered code = Inr \<lparr> status = code, payload = None \<rparr>"

definition first_reply :: http_response where
  "first_reply = \<lparr> status = 200, payload = Some (JObj [(''response'', JStr ''Because.'')]) \<rparr>"

section \<open>Properties of the Document Source Adapter\<close>

lemma String_of_nat_not_Nil: "String_of_nat n \<noteq> []"
  by (subst String_of_nat.simps) simp

lemma getField_fields:
  "doc \<noteq> JNull \<Longrightarrow> \<exists>a b c e f. getField doc ''id'' = Inr a \<and> getField doc ''page_chunk'' = Inr b
     \<and> getField doc ''content'' = Inr c \<and> getField doc ''page_embedding_text_3_large'' = Inr e
     \<and> getField doc ''page_number'' = Inr f"
  by (cases doc) simp_all

lemma normalize_null: "normalize JNull i = Inl TypeError"
  by (simp add: normalize_def)

lemma normalize_not_null: "doc \<noteq> JNull \<Longrightarrow> \<exists>d. normalize doc i = Inr d"
  using getField_fields [of doc] by (auto simp: normalize_def)

lemma transformDocuments_null:
  "JNull \<in> set docs \<Longrightarrow> transformDocuments i docs = Inl TypeError"
proof (induction docs arbitrary: i)
  case Nil
  then show ?case by simp
next
  case (Cons doc docs)
  show ?case
  proof (cases "doc = JNull")
    case True
    then show ?thesis by (simp add: normalize_null)
  next
    case False
    then obtain d where "normalize doc i = Inr d"
      using normalize_not_null by blast
    moreover from Cons.prems False have "JNull \<in> set docs" by simp
    ultimately show ?thesis using Cons.IH by simp
  qed
qed

lemma transformDocuments_ok:
  "JNull \<notin> set docs \<Longrightarrow> \<exists>ds. transformDocuments i docs = Inr ds \<and> length ds = length docs"
proof (induction docs arbitrary: i)
  case Nil
  then show ?case by simp
next
  case (Cons doc docs)
  then obtain d where d: "normalize doc i = Inr d"
    using normalize_not_null [of doc i] by auto
  from Cons obtain ds where "transformDocuments (Suc i) docs = Inr ds" "length ds = length docs"
    by fastforce
  with d show ?case by simp
qed

text \<open>
  Claim C9, as stated, fails for a record that is \<^verbatim>\<open>null\<close>, which an array parsed
  from JSON can hold: reading \<^verbatim>\<open>doc.id\<close> throws, no document is produced for it, and
  the whole fetch returns the fallback documents.
\<close>

theorem normalize_null_record:
  "normalize JNull 0 = Inl TypeError \<and>
   transformDocuments 0 [JObj [], JNull] = Inl TypeError \<and>
   fetchEarthAtNightDocuments (FetchResponse 200 (Some (JArr [JObj [], JNull]))) =
     Inr fallbackDocuments"
  by (simp add: normalize_def fetchEarthAtNightDocuments_def fetchEarthAtNightDocuments_try_def
      response_ok_def)

text \<open>
  Claim C9, amended. Normalization of a fetched record at position \<open>index\<close> that is
  not \<^verbatim>\<open>null\<close> (an object, or any other JSON value) yields a document in which a missing
  \<^verbatim>\<open>id\<close> is the decimal string of \<open>index + 1\<close>; a missing \<^verbatim>\<open>page_chunk\<close> is the
  \<^verbatim>\<open>content\<close> field when that is present and truthy, and the empty string when
  \<^verbatim>\<open>content\<close> is missing too; a missing embedding is an array of 3072 entries, each
  0.1; and a missing \<^verbatim>\<open>page_number\<close> is \<open>index + 1\<close>.
\<close>

theorem normalize_defaults:
  assumes "doc \<noteq> JNull"
  shows "\<exists>d. normalize doc index = Inr d \<and>
     (getField doc ''id'' = Inr None \<longrightarrow> doc_id d = JStr (String_of_nat (index + 1))) \<and>
     (getField doc ''page_chunk'' = Inr None \<longrightarrow>
        (\<forall>c. getField doc ''content'' = Inr c \<longrightarrow> page_chunk d = or_default c (JStr ''''))) \<and>
     (getField doc ''page_chunk'' = Inr None \<and> getField doc ''content'' = Inr None \<longrightarrow>
        page_chunk d = JStr '''') \<and>
     (getField doc ''page_embedding_text_3_large'' = Inr None \<longrightarrow>
        page_embedding_text_3_large d = JArr (replicate 3072 (JNum (1 / 10)))) \<and>
     (getField doc ''page_number'' = Inr None \<longrightarrow> page_number d = JNum (of_nat index + 1))"
proof -
  from assms obtain a b c e f where
    "getField doc ''id'' = Inr a" "getField doc ''page_chunk'' = Inr b"
    "getField doc ''content'' = Inr c" "getField doc ''page_embedding_text_3_large'' = Inr e"
    "getField doc ''page_number'' = Inr f"
    using getField_fields by blast
  then show ?thesis
    by (simp add: normalize_def or_default_def js_or_def filled_embedding_def)
qed

theorem normalize_defaults_witness:
  "JObj [(''content'', JStr ''night'')] \<noteq> JNull \<and>
   (\<exists>d. normalize (JObj [(''content'', JStr ''night'')]) 4 = Inr d \<and> doc_id d = JStr ''5'' \<and>
        page_chunk d = JStr ''night'' \<and>
        page_embedding_text_3_large d = JArr (replicate 3072 (JNum (1 / 10))) \<and>
        page_number d = JNum 5)"
  using normalize_defaults [of "JObj [(''content'', JStr ''night'')]" 4]
  by (simp add: String_of_nat.simps digit_char_def or_default_def)

text \<open>
  Claim C10. A field that is present but falsy is defaulted like a missing one, because
  the defaults are applied with \<^verbatim>\<open>||\<close>: an \<^verbatim>\<open>id\<close> of \<^verbatim>\<open>""\<close> becomes the
  position-based string, a \<^verbatim>\<open>page_number\<close> of 0 becomes \<open>index + 1\<close>, and a
  \<^verbatim>\<open>page_chunk\<close> of \<^verbatim>\<open>""\<close> becomes the alternate \<^verbatim>\<open>content\<close> or the empty string.
  The same holds for every falsy value (\<^verbatim>\<open>null\<close>, \<^verbatim>\<open>false\<close>, 0, \<^verbatim>\<open>""\<close>).
\<close>

theorem normalize_falsy_as_missing:
  assumes "doc \<noteq> JNull"
  shows "\<exists>d. normalize doc index = Inr d \<and>
     (\<forall>v. getField doc ''id'' = Inr (Some v) \<and> \<not> truthy v \<longrightarrow>
          doc_id d = JStr (String_of_nat (index + 1))) \<and>
     (\<forall>v. getField doc ''page_number'' = Inr (Some v) \<and> \<not> truthy v \<longrightarrow>
          page_number d = JNum (of_nat index + 1)) \<and>
     (\<forall>v c. getField doc ''page_chunk'' = Inr (Some v) \<and> \<not> truthy v \<and>
            getField doc ''content'' = Inr c \<longrightarrow>
          page_chunk d = or_default c (JStr '''')) \<and>
     (getField doc ''id'' = Inr (Some (JStr '''')) \<longrightarrow>
          doc_id d = JStr (String_of_nat (index + 1)) \<and> doc_id d \<noteq> JStr '''') \<and>
     (getField doc ''page_number'' = Inr (Some (JNum 0)) \<longrightarrow>
          page_number d = JNum (of_nat index + 1) \<and> page_number d \<noteq> JNum 0) \<and>
     (getField doc ''page_chunk'' = Inr (Some (JStr '''')) \<longrightarrow>
          (\<forall>c. getField doc ''content'' = Inr c \<longrightarrow> page_chunk d = or_default c (JStr '''')))"
proof -
  from assms obtain a b c e f where
    "getField doc ''id'' = Inr a" "getField doc ''page_chunk'' = Inr b"
    "getField doc ''content'' = Inr c" "getField doc ''page_embedding_text_3_large'' = Inr e"
    "getField doc ''page_number'' = Inr f"
    using getField_fields by blast
  moreover have "of_nat index + 1 \<noteq> (0::rat)"
    using of_nat_0_le_iff [of index, where ?'a = rat] by linarith
  ultimately show ?thesis
    by (auto simp add: normalize_def or_default_def js_or_def String_of_nat_not_Nil add.commute)
qed

theorem normalize_falsy_as_missing_witness:
  "JObj [(''id'', JStr ''''), (''page_chunk'', JStr ''''), (''content'', JStr ''alt''),
         (''page_number'', JNum 0)] \<noteq> JNull \<and>
   (\<exists>d. normalize (JObj [(''id'', JStr ''''), (''page_chunk'', JStr ''''),
                          (''content'', JStr ''alt''), (''page_number'', JNum 0)]) 6 = Inr d \<and>
        doc_id d = JStr ''7'' \<and> page_number d = JNum 7 \<and> page_chunk d = JStr ''alt'')"
  using normalize_falsy_as_missing
    [of "JObj [(''id'', JStr ''''), (''page_chunk'', JStr ''''), (''content'', JStr ''alt''),
               (''page_number'', JNum 0)]" 6]
  by (auto simp add: String_of_nat.simps digit_char_def or_default_def)

text \<open>
  Claim C3, as stated, fails on the document fetch of the top-level script: a response
  with status 404 makes it throw, and nothing catches the error.
\<close>

theorem script_fetchDocuments_raises:
  "script_fetchDocuments (FetchResponse 404 None) = Inl (FetchFailed 404)"
  by (simp add: script_fetchDocuments_def response_ok_def)

text \<open>The same holds of every status outside 200 to 299, and of a body that is not JSON.\<close>

lemma script_fetchDocuments_throws:
  "\<not> response_ok code \<Longrightarrow>
     script_fetchDocuments (FetchResponse code b) = Inl (FetchFailed code)"
  "response_ok code \<Longrightarrow> script_fetchDocuments (FetchResponse code None) = Inl SyntaxError"
  "script_fetchDocuments FetchRejected = Inl NetworkError"
  by (simp_all add: script_fetchDocuments_def)

text \<open>
  Claim C3, amended. The function \<^verbatim>\<open>fetchEarthAtNightDocuments\<close> never raises. It
  returns the built-in fallback of exactly two documents, with ids \<^verbatim>\<open>"1"\<close> and
  \<^verbatim>\<open>"2"\<close>, when the request is rejected, when the status is outside 200 to 299, when the
  body is not JSON, when the parsed body is not an array, and when the array holds a
  \<^verbatim>\<open>null\<close> element.
\<close>

theorem fetchEarthAtNightDocuments_fallback:
  "(\<exists>documents. fetchEarthAtNightDocuments outcome = Inr documents) \<and>
   (outcome = FetchRejected \<or>
    (\<exists>status body. outcome = FetchResponse status body \<and>
       (\<not> response_ok status \<or> body = None \<or>
        (\<exists>v. body = Some v \<and> (\<forall>docs. v \<noteq> JArr docs)) \<or>
        (\<exists>docs. body = Some (JArr docs) \<and> JNull \<in> set docs)))
    \<longrightarrow> fetchEarthAtNightDocuments outcome = Inr fallbackDocuments) \<and>
   length fallbackDocuments = 2 \<and>
   map doc_id fallbackDocuments = [JStr ''1'', JStr ''2'']"
proof -
  have total: "\<exists>documents. fetchEarthAtNightDocuments outcome = Inr documents"
    by (simp add: fetchEarthAtNightDocuments_def split: sum.split)
  have fb: "fetchEarthAtNightDocuments outcome = Inr fallbackDocuments"
    if "\<exists>e. fetchEarthAtNightDocuments_try outcome = Inl e"
    using that by (auto simp: fetchEarthAtNightDocuments_def)
  have r: "\<exists>e. fetchEarthAtNightDocuments_try FetchRejected = Inl e"
    by (simp add: fetchEarthAtNightDocuments_try_def)
  have s: "\<exists>e. fetchEarthAtNightDocuments_try (FetchResponse status body) = Inl e"
    if "\<not> response_ok status \<or> body = None \<or>
        (\<exists>v. body = Some v \<and> (\<forall>docs. v \<noteq> JArr docs)) \<or>
        (\<exists>docs. body = Some (JArr docs) \<and> JNull \<in> set docs)" for status body
    using that
    by (auto simp: fetchEarthAtNightDocuments_try_def transformDocuments_null split: json.split)
  show ?thesis
    using total fb r s by (auto simp: fallbackDocuments_def)
qed

theorem fetchEarthAtNightDocuments_fallback_witness:
  "fetchEarthAtNightDocuments (FetchResponse 503 None) = Inr fallbackDocuments \<and>
   fetchEarthAtNightDocuments (FetchResponse 200 (Some (JObj []))) = Inr fallbackDocuments \<and>
   fetchEarthAtNightDocuments FetchRejected = Inr fallbackDocuments"
  using fetchEarthAtNightDocuments_fallback [of "FetchResponse 503 None"]
    fetchEarthAtNightDocuments_fallback [of "FetchResponse 200 (Some (JObj []))"]
    fetchEarthAtNightDocuments_fallback [of FetchRejected]
  by (simp add: response_ok_def)

section \<open>Properties of the Indexing Convergence Monitor\<close>

lemma poll_loop_stop: "poll_loop r e k e trace = Some (e, trace)"
  by (subst poll_loop.simps) simp

lemma poll_loop_step:
  "count \<noteq> e \<Longrightarrow> poll_loop r e k count trace =
     poll_loop r e (Suc k) (r k) (trace @ [Delay WAIT_TIME, GetDocumentsCount (r k)])"
  by (subst poll_loop.simps) simp


lemma poll_loop_reaches:
  "r m = e \<Longrightarrow> k \<le> m \<Longrightarrow> (\<forall>j. k \<le> j \<and> j < m \<longrightarrow> r j \<noteq> e) \<Longrightarrow> count \<noteq> e \<Longrightarrow>
   poll_loop r e k count (polls r k) = Some (e, polls r (Suc m))"
proof (induction "m - k" arbitrary: k count)
  case 0
  then have km: "k = m" by simp
  have "poll_loop r e k count (polls r k) = poll_loop r e (Suc k) (r k) (polls r (Suc k))"
    using poll_loop_step [OF "0.prems"(4)] by simp
  also have "\<dots> = Some (e, polls r (Suc m))"
    using km "0.prems"(1) poll_loop_stop [of r e "Suc m" "polls r (Suc m)"] by simp
  finally show ?case .
next
  case (Suc d)
  then have lt: "k < m" by simp
  with Suc.prems have ne: "r k \<noteq> e" by simp
  have "poll_loop r e k count (polls r k) = poll_loop r e (Suc k) (r k) (polls r (Suc k))"
    using poll_loop_step [OF Suc.prems(4)] by simp
  also have "\<dots> = Some (e, polls r (Suc m))"
  proof (rule Suc.hyps(1))
    show "d = m - Suc k" using Suc.hyps(2) by simp
    show "r m = e" by (rule Suc.prems(1))
    show "Suc k \<le> m" using lt by simp
    show "\<forall>j. Suc k \<le> j \<and> j < m \<longrightarrow> r j \<noteq> e" using Suc.prems(3) by simp
    show "r k \<noteq> e" by (rule ne)
  qed
  finally show ?case .
qed


lemma poll_loop_Some_reads:
  assumes "poll_loop r e k count trace = Some y"
  shows "count = e \<or> (\<exists>j. k \<le> j \<and> r j = e)"
proof (induct r e k count trace y rule: poll_loop.raw_induct)
  case (1 f reported expected k count trace y)
  show ?case
  proof (cases "count = expected")
    case True
    then show ?thesis by simp
  next
    case False
    with 1(2) have "f reported expected (Suc k) (reported k)
        (trace @ [Delay WAIT_TIME, GetDocumentsCount (reported k)]) = Some y" by simp
    then have "reported k = expected \<or> (\<exists>j. Suc k \<le> j \<and> reported j = expected)"
      by (rule 1(1))
    then show ?thesis
    proof
      assume "reported k = expected"
      then have "k \<le> k \<and> reported k = expected" by simp
      then show ?thesis by blast
    next
      assume "\<exists>j. Suc k \<le> j \<and> reported j = expected"
      then obtain j where "Suc k \<le> j" "reported j = expected" by blast
      then have "k \<le> j \<and> reported j = expected" by simp
      then show ?thesis by blast
    qed
  qed
qed (rule assms)

lemma length_polls: "length (polls r n) = 2 * n"
  by (induction n) simp_all

lemma polls_nth:
  "j < n \<Longrightarrow> polls r n ! (2 * j) = Delay WAIT_TIME \<and> polls r n ! Suc (2 * j) = GetDocumentsCount (r j)"
proof (induction n)
  case 0
  then show ?case by simp
next
  case (Suc n)
  show ?case
  proof (cases "j < n")
    case True
    with Suc.IH show ?thesis by (simp add: nth_append length_polls)
  next
    case False
    with Suc.prems have "j = n" by simp
    then show ?thesis by (simp add: nth_append length_polls)
  qed
qed

lemma awaitConvergence_char:
  "awaitConvergence reported documents =
     (if \<exists>i. reported i = int (length documents)
      then Some (int (length documents),
                 polls reported (Suc (LEAST i. reported i = int (length documents))))
      else None)"
proof (cases "\<exists>i. reported i = int (length documents)")
  case True
  define e where "e = int (length documents)"
  define m where "m = (LEAST i. reported i = e)"
  from True have rm: "reported m = e"
    unfolding m_def e_def by (metis (mono_tags, lifting) LeastI)
  have least: "\<forall>j. j < m \<longrightarrow> reported j \<noteq> e"
    unfolding m_def using not_less_Least by blast
  have "awaitConvergence reported documents = Some (e, polls reported (Suc m))"
  proof (cases "m = 0")
    case True
    with rm show ?thesis
      using poll_loop_stop [of reported e 1 "polls reported 1"]
      by (simp add: awaitConvergence_def e_def)
  next
    case False
    then have "reported 0 \<noteq> e" using least by simp
    moreover have "1 \<le> m" using False by simp
    moreover have "\<forall>j. 1 \<le> j \<and> j < m \<longrightarrow> reported j \<noteq> e" using least by simp
    ultimately have "poll_loop reported e 1 (reported 0) (polls reported 1) = Some (e, polls reported (Suc m))"
      using poll_loop_reaches [of reported m e 1 "reported 0"] rm by blast
    then show ?thesis by (simp add: awaitConvergence_def e_def)
  qed
  with True show ?thesis by (simp add: e_def m_def)
next
  case False
  have "awaitConvergence reported documents = None"
  proof (rule ccontr)
    assume "awaitConvergence reported documents \<noteq> None"
    then obtain y where "poll_loop reported (int (length documents)) 1 (reported 0)
       [Delay WAIT_TIME, GetDocumentsCount (reported 0)] = Some y"
      by (auto simp: awaitConvergence_def)
    from poll_loop_Some_reads [OF this] False show False by blast
  qed
  with False show ?thesis by simp
qed

lemma reads_of_append: "reads_of (xs @ ys) = reads_of xs @ reads_of ys"
  by (induction xs rule: reads_of.induct) simp_all

lemma reads_of_polls: "reads_of (polls r n) = map r [0..<n]"
  by (induction n) (simp_all add: reads_of_append)

lemma polls_retry:
  assumes i: "i < length (polls r (Suc m))"
    and g: "polls r (Suc m) ! i = GetDocumentsCount c"
    and ne: "c \<noteq> e"
    and rm: "r m = e"
  shows "Suc (Suc i) < length (polls r (Suc m)) \<and> polls r (Suc m) ! Suc i = Delay WAIT_TIME \<and>
         (\<exists>c'. polls r (Suc m) ! Suc (Suc i) = GetDocumentsCount c')"
proof -
  from i have i2: "i < 2 * Suc m" by (simp only: length_polls)
  have "odd i"
  proof (rule ccontr)
    assume "\<not> odd i"
    then obtain j where j: "i = 2 * j" by (auto elim: evenE)
    with i2 have "j < Suc m" by simp
    from polls_nth [OF this, of r] j g show False by simp
  qed
  then obtain j where j: "i = Suc (2 * j)" by (auto elim: oddE)
  with i2 have jm: "j < Suc m" by simp
  from polls_nth [OF jm, of r] j g have c: "c = r j" by simp
  with ne rm have "j \<noteq> m" by auto
  with jm have sj: "Suc j < Suc m" by simp
  have "Suc i = 2 * Suc j" using j by simp
  moreover have "Suc (Suc i) = Suc (2 * Suc j)" using j by simp
  moreover have "Suc (Suc i) < 2 * Suc m" using sj j by simp
  ultimately show ?thesis
    using polls_nth [OF sj, of r] by (simp only: length_polls) blast
qed

text \<open>
  Claim C1. When the monitor returns, the count it read last equals the number of
  documents: the returned count is \<open>length documents\<close>, the last event of the trace is
  the read of that count, the reads are the reported counts in their order, and every
  read of another count is followed by a delay of 4000 ms and then by the next read.
\<close>

theorem awaitConvergence_returns_converged:
  assumes "awaitConvergence reported documents = Some (count, trace)"
  shows "count = int (length documents) \<and>
         trace \<noteq> [] \<and> last trace = GetDocumentsCount (int (length documents)) \<and>
         (\<exists>n. reads_of trace = map reported [0..<Suc n]) \<and>
         (\<forall>i c. i < length trace \<and> trace ! i = GetDocumentsCount c \<and> c \<noteq> int (length documents) \<longrightarrow>
            Suc (Suc i) < length trace \<and> trace ! Suc i = Delay 4000 \<and>
            (\<exists>c'. trace ! Suc (Suc i) = GetDocumentsCount c'))"
proof -
  define e where "e = int (length documents)"
  define m where "m = (LEAST i. reported i = e)"
  from assms have ex: "\<exists>i. reported i = e"
    unfolding e_def by (auto simp add: awaitConvergence_char split: if_splits)
  then have rm: "reported m = e"
    unfolding m_def by (rule LeastI_ex)
  from assms ex have ct: "count = e" "trace = polls reported (Suc m)"
    unfolding e_def m_def by (auto simp add: awaitConvergence_char simp del: polls.simps)
  have "last trace = GetDocumentsCount e" using ct rm by simp
  moreover have "reads_of trace = map reported [0..<Suc m]"
    using ct by (simp only: reads_of_polls)
  moreover have "\<forall>i c. i < length trace \<and> trace ! i = GetDocumentsCount c \<and> c \<noteq> e \<longrightarrow>
            Suc (Suc i) < length trace \<and> trace ! Suc i = Delay 4000 \<and>
            (\<exists>c'. trace ! Suc (Suc i) = GetDocumentsCount c')"
    using polls_retry [of _ reported m _ e] rm unfolding ct WAIT_TIME_def by blast
  ultimately show ?thesis using ct unfolding e_def by auto
qed

theorem awaitConvergence_returns_converged_witness:
  "awaitConvergence (\<lambda>k. if k < 2 then int k else 2) [JObj [], JObj []] =
     Some (2, [Delay 4000, GetDocumentsCount 0, Delay 4000, GetDocumentsCount 1,
               Delay 4000, GetDocumentsCount 2]) \<and>
   last [Delay 4000, GetDocumentsCount 0, Delay 4000, GetDocumentsCount 1,
         Delay 4000, GetDocumentsCount 2] = GetDocumentsCount (int (length [JObj [], JObj []]))"
proof -
  have h: "awaitConvergence (\<lambda>k. if k < 2 then int k else 2) [JObj [], JObj []] =
     Some (2, [Delay 4000, GetDocumentsCount 0, Delay 4000, GetDocumentsCount 1,
               Delay 4000, GetDocumentsCount 2])"
    by (simp add: awaitConvergence_def poll_loop.simps WAIT_TIME_def)
  from awaitConvergence_returns_converged [OF h] h show ?thesis by simp
qed

text \<open>
  Claim C2. The monitor has no retry ceiling: it never returns exactly when no reported
  count equals the expected one (a larger count does not stop it), it returns exactly
  when some reported count equals it, and when the first such count is the one at
  position \<open>m\<close>, for any \<open>m\<close>, it returns after \<open>m + 1\<close> reads.
\<close>

theorem awaitConvergence_unbounded:
  "(awaitConvergence reported documents = None) = (\<forall>i. reported i \<noteq> int (length documents)) \<and>
   ((\<exists>count trace. awaitConvergence reported documents = Some (count, trace)) =
      (\<exists>i. reported i = int (length documents))) \<and>
   (\<forall>m. reported m = int (length documents) \<and> (\<forall>j<m. reported j \<noteq> int (length documents)) \<longrightarrow>
      (\<exists>trace. awaitConvergence reported documents = Some (int (length documents), trace) \<and>
         length (reads_of trace) = Suc m))"
proof -
  define e where "e = int (length documents)"
  have none: "(awaitConvergence reported documents = None) = (\<forall>i. reported i \<noteq> e)"
    unfolding e_def by (simp add: awaitConvergence_char)
  have some: "(\<exists>count trace. awaitConvergence reported documents = Some (count, trace)) =
      (\<exists>i. reported i = e)"
    unfolding e_def by (simp add: awaitConvergence_char)
  have exact: "\<exists>trace. awaitConvergence reported documents = Some (e, trace) \<and>
         length (reads_of trace) = Suc m"
    if rm: "reported m = e" and least: "\<forall>j<m. reported j \<noteq> e" for m
  proof -
    have "(LEAST i. reported i = e) = m"
      using rm least by (intro Least_equality) (auto simp: not_less [symmetric])
    with rm have "awaitConvergence reported documents = Some (e, polls reported (Suc m))"
      unfolding e_def by (auto simp add: awaitConvergence_char simp del: polls.simps)
    moreover have "length (reads_of (polls reported (Suc m))) = Suc m"
      by (simp only: reads_of_polls length_map length_upt diff_zero)
    ultimately show ?thesis by blast
  qed
  from none some exact show ?thesis
    unfolding e_def by blast
qed

theorem awaitConvergence_unbounded_witness:
  "awaitConvergence (\<lambda>k. 3) [JObj [], JObj []] = None \<and>
   (\<exists>trace. awaitConvergence (\<lambda>k. if k = 5 then 2 else 3) [JObj [], JObj []] = Some (2, trace) \<and>
      length (reads_of trace) = 6)"
proof -
  have "awaitConvergence (\<lambda>k. 3) [JObj [], JObj []] = None"
    using awaitConvergence_unbounded [of "\<lambda>k. 3" "[JObj [], JObj []]"] by simp
  moreover have "\<exists>trace. awaitConvergence (\<lambda>k. if k = 5 then 2 else 3) [JObj [], JObj []] =
      Some (2, trace) \<and> length (reads_of trace) = 6"
    using awaitConvergence_unbounded [of "\<lambda>k. if k = (5::nat) then 2 else 3" "[JObj [], JObj []]",
        THEN conjunct2, THEN conjunct2, THEN spec, of 5]
    by simp
  ultimately show ?thesis by blast
qed

section \<open>Properties of Knowledge Registration\<close>

lemma createKnowledgeSource_skip:
  assumes "request_ok (fst (srv (remote w) (knowledgeSourceProbe cfg)))"
  shows "createKnowledgeSource cfg (Inr tok) srv w =
     (Inr (), \<lparr> remote = snd (srv (remote w) (knowledgeSourceProbe cfg)),
                sent = sent w @ [knowledgeSourceProbe cfg] \<rparr>)"
  using assms
  by (auto simp: createKnowledgeSource_def fetch_def request_ok_def split: prod.splits sum.splits)

lemma createKnowledgeSource_success:
  assumes "createKnowledgeSource cfg (Inr tok) srv w = (Inr (), w1)"
  shows "(request_ok (fst (srv (remote w) (knowledgeSourceProbe cfg))) \<and>
          remote w1 = snd (srv (remote w) (knowledgeSourceProbe cfg))) \<or>
         (request_ok (fst (srv (snd (srv (remote w) (knowledgeSourceProbe cfg))) (knowledgeSourceCreate cfg))) \<and>
          remote w1 = snd (srv (snd (srv (remote w) (knowledgeSourceProbe cfg))) (knowledgeSourceCreate cfg)))"
  using assms
  by (auto simp: createKnowledgeSource_def fetch_def request_ok_def
      split: prod.splits sum.splits if_splits)

lemma flag_service_found:
  "request_ok (fst (flag_service s (knowledgeSourceCreate cfg))) \<longrightarrow>
     request_ok (fst (flag_service (snd (flag_service s (knowledgeSourceCreate cfg)))
        (knowledgeSourceProbe cfg)))"
  "request_ok (fst (flag_service s (knowledgeSourceProbe cfg))) \<longrightarrow>
     request_ok (fst (flag_service (snd (flag_service s (knowledgeSourceProbe cfg)))
        (knowledgeSourceProbe cfg)))"
  by (simp_all add: flag_service_def knowledgeSourceCreate_def knowledgeSourceProbe_def
      request_ok_def response_ok_def)

text \<open>
  Claim C6. Creation of the knowledge source is skip-if-exists: when the probe is
  answered with a success status, the function returns without an error after that one
  GET, with no create request and no update. Called a second time after a call that
  succeeded, on a service that finds a source once it was created and keeps finding it,
  it gives no error and sends only the probe, so nothing is created twice.
\<close>

theorem createKnowledgeSource_idempotent:
  "(request_ok (fst (srv (remote w) (knowledgeSourceProbe cfg))) \<longrightarrow>
      createKnowledgeSource cfg (Inr tok) srv w =
        (Inr (), \<lparr> remote = snd (srv (remote w) (knowledgeSourceProbe cfg)),
                   sent = sent w @ [knowledgeSourceProbe cfg] \<rparr>)) \<and>
   ((\<forall>s. request_ok (fst (srv s (knowledgeSourceCreate cfg))) \<longrightarrow>
         request_ok (fst (srv (snd (srv s (knowledgeSourceCreate cfg))) (knowledgeSourceProbe cfg)))) \<and>
    (\<forall>s. request_ok (fst (srv s (knowledgeSourceProbe cfg))) \<longrightarrow>
         request_ok (fst (srv (snd (srv s (knowledgeSourceProbe cfg))) (knowledgeSourceProbe cfg)))) \<and>
    createKnowledgeSource cfg (Inr tok) srv w = (Inr (), w1) \<longrightarrow>
      (\<exists>w2. createKnowledgeSource cfg (Inr tok') srv w1 = (Inr (), w2) \<and>
            sent w2 = sent w1 @ [knowledgeSourceProbe cfg]))"
proof (intro conjI impI)
  assume "request_ok (fst (srv (remote w) (knowledgeSourceProbe cfg)))"
  then show "createKnowledgeSource cfg (Inr tok) srv w =
        (Inr (), \<lparr> remote = snd (srv (remote w) (knowledgeSourceProbe cfg)),
                   sent = sent w @ [knowledgeSourceProbe cfg] \<rparr>)"
    by (rule createKnowledgeSource_skip)
next
  assume a: "(\<forall>s. request_ok (fst (srv s (knowledgeSourceCreate cfg))) \<longrightarrow>
         request_ok (fst (srv (snd (srv s (knowledgeSourceCreate cfg))) (knowledgeSourceProbe cfg)))) \<and>
    (\<forall>s. request_ok (fst (srv s (knowledgeSourceProbe cfg))) \<longrightarrow>
         request_ok (fst (srv (snd (srv s (knowledgeSourceProbe cfg))) (knowledgeSourceProbe cfg)))) \<and>
    createKnowledgeSource cfg (Inr tok) srv w = (Inr (), w1)"
  then have "request_ok (fst (srv (remote w1) (knowledgeSourceProbe cfg)))"
    using createKnowledgeSource_success [of cfg tok srv w w1] by auto
  then show "\<exists>w2. createKnowledgeSource cfg (Inr tok') srv w1 = (Inr (), w2) \<and>
            sent w2 = sent w1 @ [knowledgeSourceProbe cfg]"
    by (simp add: createKnowledgeSource_skip)
qed

theorem createKnowledgeSource_idempotent_witness:
  "createKnowledgeSource test_config (Inr ''t'') flag_service \<lparr> remote = False, sent = [] \<rparr> =
     (Inr (), \<lparr> remote = True,
                sent = [knowledgeSourceProbe test_config, knowledgeSourceCreate test_config] \<rparr>) \<and>
   (\<exists>w2. createKnowledgeSource test_config (Inr ''u'') flag_service
            \<lparr> remote = True,
              sent = [knowledgeSourceProbe test_config, knowledgeSourceCreate test_config] \<rparr> =
          (Inr (), w2) \<and>
        sent w2 = [knowledgeSourceProbe test_config, knowledgeSourceCreate test_config,
                   knowledgeSourceProbe test_config])"
proof -
  let ?w0 = "\<lparr> remote = False, sent = [] \<rparr> :: bool world"
  let ?w1 = "\<lparr> remote = True,
         sent = [knowledgeSourceProbe test_config, knowledgeSourceCreate test_config] \<rparr> :: bool world"
  have first: "createKnowledgeSource test_config (Inr ''t'') flag_service ?w0 = (Inr (), ?w1)"
    by (simp add: createKnowledgeSource_def fetch_def flag_service_def knowledgeSourceProbe_def
        knowledgeSourceCreate_def response_ok_def)
  have h1: "\<forall>s. request_ok (fst (flag_service s (knowledgeSourceCreate test_config))) \<longrightarrow>
      request_ok (fst (flag_service (snd (flag_service s (knowledgeSourceCreate test_config)))
        (knowledgeSourceProbe test_config)))"
    using flag_service_found(1) by blast
  have h2: "\<forall>s. request_ok (fst (flag_service s (knowledgeSourceProbe test_config))) \<longrightarrow>
      request_ok (fst (flag_service (snd (flag_service s (knowledgeSourceProbe test_config)))
        (knowledgeSourceProbe test_config)))"
    using flag_service_found(2) by blast
  from createKnowledgeSource_idempotent [of flag_service ?w0 test_config "''t''" ?w1 "''u''",
      THEN conjunct2, rule_format, OF conjI [OF h1 conjI [OF h2 first]]]
  have "\<exists>w2. createKnowledgeSource test_config (Inr ''u'') flag_service ?w1 = (Inr (), w2) \<and>
      sent w2 = sent ?w1 @ [knowledgeSourceProbe test_config]" .
  with first show ?thesis by simp
qed

lemma createKnowledgeBaseWith_answered:
  assumes "fst (srv (remote w) (knowledgeBaseProbe cfg)) = Inr getResponse"
  shows "createKnowledgeBaseWith instructions cfg (Inr tok) srv w =
    (case fst (srv (snd (srv (remote w) (knowledgeBaseProbe cfg))) (knowledgeBasePut cfg instructions)) of
       Inl e \<Rightarrow> Inl e
     | Inr response \<Rightarrow>
         if response_ok (status response) then Inr ()
         else Inl (HttpError ''Failed to create knowledge base'' (status response)),
     \<lparr> remote = snd (srv (snd (srv (remote w) (knowledgeBaseProbe cfg)))
                      (knowledgeBasePut cfg instructions)),
       sent = sent w @ [knowledgeBaseProbe cfg, knowledgeBasePut cfg instructions] \<rparr>)"
  using assms
  by (auto simp: createKnowledgeBaseWith_def fetch_def split: prod.splits sum.splits)

text \<open>
  Claim C7. Registration of the knowledge base is create-or-replace: whatever status
  the probe is answered with, the call sends the GET probe and then a PUT to the URL of
  the knowledge base whose body is the whole definition (name, knowledge sources, model
  with endpoint, deployment and model name, output mode, and the instructions it was
  given); it succeeds exactly when the PUT does, and the service is left in the state
  that this PUT produced. Of two successive calls the second one sends its own
  definition last, and definitions with different instructions are different requests.
  \<^verbatim>\<open>createKnowledgeBase\<close> of the source does this with its literal instruction text.
\<close>

theorem createKnowledgeBase_upsert:
  "(fst (srv (remote w) (knowledgeBaseProbe cfg)) = Inr getResponse \<longrightarrow>
      sent (snd (createKnowledgeBaseWith instructions cfg (Inr tok) srv w)) =
        sent w @ [knowledgeBaseProbe cfg, knowledgeBasePut cfg instructions] \<and>
      remote (snd (createKnowledgeBaseWith instructions cfg (Inr tok) srv w)) =
        snd (srv (snd (srv (remote w) (knowledgeBaseProbe cfg))) (knowledgeBasePut cfg instructions)) \<and>
      (fst (createKnowledgeBaseWith instructions cfg (Inr tok) srv w) = Inr ()) =
        request_ok (fst (srv (snd (srv (remote w) (knowledgeBaseProbe cfg)))
                          (knowledgeBasePut cfg instructions)))) \<and>
   knowledgeBaseProbe cfg =
     \<lparr> req_method = GET,
       url = searchEndpoint cfg @ ''/knowledgebases/'' @ knowledgeBaseName cfg @
             ''?api-version='' @ searchApiVersion cfg,
       body = None \<rparr> \<and>
   knowledgeBasePut cfg instructions =
     \<lparr> req_method = PUT,
       url = searchEndpoint cfg @ ''/knowledgebases/'' @ knowledgeBaseName cfg @
             ''?api-version='' @ searchApiVersion cfg,
       body = Some (JObj
         [(''name'', JStr (knowledgeBaseName cfg)),
          (''knowledgeSources'', JArr [JObj [(''name'', JStr (knowledgeSourceName cfg))]]),
          (''models'',
             JArr [JObj [(''kind'', JStr ''azureOpenAI''),
                         (''azureOpenAIParameters'',
                            JObj [(''resourceUri'', JStr (azureOpenAIEndpoint cfg)),
                                  (''deploymentId'', JStr (azureOpenAIGptDeployment cfg)),
                                  (''modelName'', JStr (azureOpenAIGptModel cfg))])]]),
          (''outputMode'', JStr ''answerSynthesis''),
          (''answerInstructions'', JStr instructions)]) \<rparr> \<and>
   req_method (knowledgeBasePut cfg instructions) = PUT \<and>
   body (knowledgeBasePut cfg instructions) = Some (knowledgeBaseDefinition cfg instructions) \<and>
   getField (knowledgeBaseDefinition cfg instructions) ''answerInstructions'' =
     Inr (Some (JStr instructions)) \<and>
   (fst (srv (remote w) (knowledgeBaseProbe cfg)) = Inr getResponse \<and>
    fst (srv (remote (snd (createKnowledgeBaseWith instructions cfg (Inr tok) srv w)))
          (knowledgeBaseProbe cfg)) = Inr getResponse' \<longrightarrow>
      sent (snd (createKnowledgeBaseWith instructions' cfg (Inr tok')  srv
                   (snd (createKnowledgeBaseWith instructions cfg (Inr tok) srv w)))) =
        sent w @ [knowledgeBaseProbe cfg, knowledgeBasePut cfg instructions,
                  knowledgeBaseProbe cfg, knowledgeBasePut cfg instructions']) \<and>
   (instructions' \<noteq> instructions \<longrightarrow>
      knowledgeBasePut cfg instructions' \<noteq> knowledgeBasePut cfg instructions) \<and>
   (fst (srv (remote w) (knowledgeBaseProbe cfg)) = Inr getResponse \<longrightarrow>
      sent (snd (createKnowledgeBase cfg (Inr tok) srv w)) =
        sent w @
        [\<lparr> req_method = GET,
           url = searchEndpoint cfg @ ''/knowledgebases/'' @ knowledgeBaseName cfg @
                 ''?api-version='' @ searchApiVersion cfg,
           body = None \<rparr>,
         \<lparr> req_method = PUT,
           url = searchEndpoint cfg @ ''/knowledgebases/'' @ knowledgeBaseName cfg @
                 ''?api-version='' @ searchApiVersion cfg,
           body = Some (JObj
             [(''name'', JStr (knowledgeBaseName cfg)),
              (''knowledgeSources'', JArr [JObj [(''name'', JStr (knowledgeSourceName cfg))]]),
              (''models'',
                 JArr [JObj [(''kind'', JStr ''azureOpenAI''),
                             (''azureOpenAIParameters'',
                                JObj [(''resourceUri'', JStr (azureOpenAIEndpoint cfg)),
                                      (''deploymentId'', JStr (azureOpenAIGptDeployment cfg)),
                                      (''modelName'', JStr (azureOpenAIGptModel cfg))])]]),
              (''outputMode'', JStr ''answerSynthesis''),
              (''answerInstructions'',
                 JStr ''Provide a two sentence concise and informative answer based on the retrieved documents.'')]) \<rparr>] \<and>
      (fst (createKnowledgeBase cfg (Inr tok) srv w) = Inr ()) =
        request_ok (fst (srv (snd (srv (remote w) (knowledgeBaseProbe cfg)))
                          (knowledgeBasePut cfg answerInstructions)))) \<and>
   createKnowledgeBase cfg (Inr tok) srv w =
     createKnowledgeBaseWith answerInstructions cfg (Inr tok) srv w"
proof -
  have one: "sent (snd (createKnowledgeBaseWith i cfg (Inr t) srv v)) =
        sent v @ [knowledgeBaseProbe cfg, knowledgeBasePut cfg i] \<and>
      remote (snd (createKnowledgeBaseWith i cfg (Inr t) srv v)) =
        snd (srv (snd (srv (remote v) (knowledgeBaseProbe cfg))) (knowledgeBasePut cfg i)) \<and>
      (fst (createKnowledgeBaseWith i cfg (Inr t) srv v) = Inr ()) =
        request_ok (fst (srv (snd (srv (remote v) (knowledgeBaseProbe cfg)))
                          (knowledgeBasePut cfg i)))"
    if "fst (srv (remote v) (knowledgeBaseProbe cfg)) = Inr g" for v g i t
    using that
    by (simp add: createKnowledgeBaseWith_answered [where srv = srv and w = v and cfg = cfg
          and getResponse = g] request_ok_def split: sum.split)
  have two: "sent (snd (createKnowledgeBaseWith instructions' cfg (Inr tok')  srv
                   (snd (createKnowledgeBaseWith instructions cfg (Inr tok) srv w)))) =
        sent w @ [knowledgeBaseProbe cfg, knowledgeBasePut cfg instructions,
                  knowledgeBaseProbe cfg, knowledgeBasePut cfg instructions']"
    if a: "fst (srv (remote w) (knowledgeBaseProbe cfg)) = Inr getResponse"
      and b: "fst (srv (remote (snd (createKnowledgeBaseWith instructions cfg (Inr tok) srv w)))
          (knowledgeBaseProbe cfg)) = Inr getResponse'"
    using one [OF a, of instructions tok] one [OF b, of instructions' tok'] by simp
  have probe: "knowledgeBaseProbe cfg =
     \<lparr> req_method = GET,
       url = searchEndpoint cfg @ ''/knowledgebases/'' @ knowledgeBaseName cfg @
             ''?api-version='' @ searchApiVersion cfg,
       body = None \<rparr>"
    by (simp add: knowledgeBaseProbe_def knowledgeBaseUrl_def)
  have put: "knowledgeBasePut cfg i =
     \<lparr> req_method = PUT,
       url = searchEndpoint cfg @ ''/knowledgebases/'' @ knowledgeBaseName cfg @
             ''?api-version='' @ searchApiVersion cfg,
       body = Some (JObj
         [(''name'', JStr (knowledgeBaseName cfg)),
          (''knowledgeSources'', JArr [JObj [(''name'', JStr (knowledgeSourceName cfg))]]),
          (''models'',
             JArr [JObj [(''kind'', JStr ''azureOpenAI''),
                         (''azureOpenAIParameters'',
                            JObj [(''resourceUri'', JStr (azureOpenAIEndpoint cfg)),
                                  (''deploymentId'', JStr (azureOpenAIGptDeployment cfg)),
                                  (''modelName'', JStr (azureOpenAIGptModel cfg))])]]),
          (''outputMode'', JStr ''answerSynthesis''),
          (''answerInstructions'', JStr i)]) \<rparr>" for i
    by (simp add: knowledgeBasePut_def knowledgeBaseUrl_def knowledgeBaseDefinition_def)
  have req: "req_method (knowledgeBasePut cfg instructions) = PUT \<and>
     body (knowledgeBasePut cfg instructions) = Some (knowledgeBaseDefinition cfg instructions) \<and>
     getField (knowledgeBaseDefinition cfg instructions) ''answerInstructions'' =
       Inr (Some (JStr instructions))"
    by (simp add: knowledgeBasePut_def knowledgeBaseDefinition_def)
  have differ: "knowledgeBasePut cfg instructions' \<noteq> knowledgeBasePut cfg instructions"
    if "instructions' \<noteq> instructions"
    using that by (simp add: put)
  have lit: "answerInstructions =
      ''Provide a two sentence concise and informative answer based on the retrieved documents.''"
    by (simp add: answerInstructions_def)
  have real: "createKnowledgeBase cfg (Inr tok) srv w =
     createKnowledgeBaseWith answerInstructions cfg (Inr tok) srv w"
    by (simp add: createKnowledgeBase_def)
  have realsent: "sent (snd (createKnowledgeBase cfg (Inr tok) srv w)) =
        sent w @
        [\<lparr> req_method = GET,
           url = searchEndpoint cfg @ ''/knowledgebases/'' @ knowledgeBaseName cfg @
                 ''?api-version='' @ searchApiVersion cfg,
           body = None \<rparr>,
         \<lparr> req_method = PUT,
           url = searchEndpoint cfg @ ''/knowledgebases/'' @ knowledgeBaseName cfg @
                 ''?api-version='' @ searchApiVersion cfg,
           body = Some (JObj
             [(''name'', JStr (knowledgeBaseName cfg)),
              (''knowledgeSources'', JArr [JObj [(''name'', JStr (knowledgeSourceName cfg))]]),
              (''models'',
                 JArr [JObj [(''kind'', JStr ''azureOpenAI''),
                             (''azureOpenAIParameters'',
                                JObj [(''resourceUri'', JStr (azureOpenAIEndpoint cfg)),
                                      (''deploymentId'', JStr (azureOpenAIGptDeployment cfg)),
                                      (''modelName'', JStr (azureOpenAIGptModel cfg))])]]),
              (''outputMode'', JStr ''answerSynthesis''),
              (''answerInstructions'',
                 JStr ''Provide a two sentence concise and informative answer based on the retrieved documents.'')]) \<rparr>] \<and>
      (fst (createKnowledgeBase cfg (Inr tok) srv w) = Inr ()) =
        request_ok (fst (srv (snd (srv (remote w) (knowledgeBaseProbe cfg)))
                          (knowledgeBasePut cfg answerInstructions)))"
    if a: "fst (srv (remote w) (knowledgeBaseProbe cfg)) = Inr getResponse"
    using one [OF a, of answerInstructions tok] probe put [of answerInstructions]
    unfolding real lit by simp
  from one [of w getResponse instructions tok] two probe put [of instructions] req differ realsent real
  show ?thesis by blast
qed

theorem createKnowledgeBase_upsert_witness:
  "sent (snd (createKnowledgeBaseWith ''two'' test_config (Inr ''t'') scripted_service
       (snd (createKnowledgeBaseWith ''one'' test_config (Inr ''t'') scripted_service
          \<lparr> remote = [answered 404, answered 201, answered 200, answered 200], sent = [] \<rparr>)))) =
     [knowledgeBaseProbe test_config, knowledgeBasePut test_config ''one'',
      knowledgeBaseProbe test_config, knowledgeBasePut test_config ''two''] \<and>
   knowledgeBasePut test_config ''two'' \<noteq> knowledgeBasePut test_config ''one'' \<and>
   getField (knowledgeBaseDefinition test_config ''two'') ''answerInstructions'' =
     Inr (Some (JStr ''two''))"
proof -
  let ?w = "\<lparr> remote = [answered 404, answered 201, answered 200, answered 200],
              sent = [] \<rparr> :: (js_error + http_response) list world"
  have a: "fst (scripted_service (remote ?w) (knowledgeBaseProbe test_config)) =
      Inr \<lparr> status = 404, payload = None \<rparr>"
    by (simp add: scripted_service_def answered_def)
  have b: "fst (scripted_service
        (remote (snd (createKnowledgeBaseWith ''one'' test_config (Inr ''t'') scripted_service ?w)))
        (knowledgeBaseProbe test_config)) = Inr \<lparr> status = 200, payload = None \<rparr>"
    by (simp add: createKnowledgeBaseWith_def fetch_def scripted_service_def answered_def
        response_ok_def)
  note u = createKnowledgeBase_upsert [of scripted_service ?w test_config _ "''one''" "''t''" _
      "''two''" "''t''"]
  have c: "''two'' \<noteq> ''one''" by simp
  from u [THEN conjunct2, THEN conjunct2, THEN conjunct2, THEN conjunct2, THEN conjunct2,
      THEN conjunct2, THEN conjunct1, rule_format, OF conjI [OF a b]]
    u [THEN conjunct2, THEN conjunct2, THEN conjunct2, THEN conjunct2, THEN conjunct2,
      THEN conjunct1]
    u [THEN conjunct2, THEN conjunct2, THEN conjunct2, THEN conjunct2, THEN conjunct2,
      THEN conjunct2, THEN conjunct2, THEN conjunct1, rule_format, OF c]
  show ?thesis
    using createKnowledgeBase_upsert [of scripted_service ?w test_config _ "''two''" "''t''" _
      "''two''" "''t''", THEN conjunct2, THEN conjunct2, THEN conjunct2, THEN conjunct2,
      THEN conjunct2, THEN conjunct1]
    by simp
qed

text \<open>
  Claim C8 says that a probe answered with a failure other than "not found" is a hard
  error. In \<^verbatim>\<open>createKnowledgeSource\<close> it is not: the code tests only
  \<^verbatim>\<open>getResponse.ok\<close>, so a probe answered 500 is taken for absence, the source is
  created and the call succeeds; and after a probe answered 401 the create request is
  still sent, and the error that reaches the caller is the one of the create request.
\<close>

theorem createKnowledgeSource_probe_error_not_surfaced:
  "createKnowledgeSource test_config (Inr ''t'') scripted_service
       \<lparr> remote = [answered 500, answered 201], sent = [] \<rparr> =
     (Inr (), \<lparr> remote = [],
                sent = [knowledgeSourceProbe test_config, knowledgeSourceCreate test_config] \<rparr>) \<and>
   createKnowledgeSource test_config (Inr ''t'') scripted_service
       \<lparr> remote = [answered 401, answered 401], sent = [] \<rparr> =
     (Inl (HttpError ''Failed to create knowledge source'' 401),
      \<lparr> remote = [],
        sent = [knowledgeSourceProbe test_config, knowledgeSourceCreate test_config] \<rparr>)"
  by (simp add: createKnowledgeSource_def fetch_def scripted_service_def answered_def
      response_ok_def)

section \<open>Properties of the Retrieval Session\<close>

lemma callAgenticRetrieval_sent:
  "sent (snd (callAgenticRetrieval cfg (Inr tok) srv messages w)) =
     sent w @ [retrievePost cfg messages]"
  by (simp add: callAgenticRetrieval_def fetch_def split: prod.split sum.split option.split)

lemma continueConversation_sent:
  "sent (snd (continueConversation cfg stringify (Inr tok) srv messages w)) =
     sent w @ [retrievePost cfg
        (filter (\<lambda>m. role m \<noteq> System) messages @ [\<lparr> role = User, content = followUpQuestion \<rparr>])]"
proof -
  let ?ms = "filter (\<lambda>m. role m \<noteq> System) (messages @ [\<lparr> role = User, content = followUpQuestion \<rparr>])"
  obtain r w1 where c: "callAgenticRetrieval cfg (Inr tok) srv ?ms w = (r, w1)"
    by (cases "callAgenticRetrieval cfg (Inr tok) srv ?ms w")
  then have "sent w1 = sent w @ [retrievePost cfg ?ms]"
    using callAgenticRetrieval_sent [of cfg tok srv ?ms w] by simp
  with c show ?thesis
    by (simp add: continueConversation_def Let_def split: sum.split)
qed

text \<open>
  The second request of the top-level scripts is built from the follow-up question
  alone: these scripts keep no conversation and append no reply.
\<close>

lemma script_second_request_messages:
  "getField (script_retrievalRequest followUpQuestion) ''messages'' =
     Inr (Some (JArr [agentMessage \<lparr> role = User, content = followUpQuestion \<rparr>]))"
  by (simp add: script_retrievalRequest_def)

lemma agentMessage_in_request:
  assumes "m \<in> set messages" "role m \<noteq> System"
  shows "agentMessage m \<in> set (map agentMessage
     (filter (\<lambda>m. role m \<noteq> System) messages @ [\<lparr> role = User, content = followUpQuestion \<rparr>]))"
  using assms by auto

text \<open>
  Claim C5. The second query carries the conversation. The request that
  \<^verbatim>\<open>continueConversation\<close> sends is a POST to the retrieve URL of the knowledge base
  whose body holds under \<^verbatim>\<open>messages\<close>, in order, every message of the conversation
  that is not a system message, each as \<^verbatim>\<open>{ role, content: [{ type: "text", text }] }\<close>
  with its role name and its text, followed by the follow-up question: an assistant turn
  of the conversation is in the payload with role \<^verbatim>\<open>"assistant"\<close> and its text, a user
  turn with role \<^verbatim>\<open>"user"\<close> and its text. In a session whose first query was answered
  and logged, the messages of the second request are the first question, the assistant
  turn made of the first reply (a string reply as it is, an array reply stringified),
  and the follow-up question.
\<close>

theorem second_query_carries_context:
  "sent (snd (continueConversation cfg stringify (Inr tok) srv messages w)) =
     sent w @ [retrievePost cfg
        (filter (\<lambda>m. role m \<noteq> System) messages @ [\<lparr> role = User, content = followUpQuestion \<rparr>])] \<and>
   retrievePost cfg ms =
     \<lparr> req_method = POST,
       url = searchEndpoint cfg @ ''/knowledgebases/'' @ knowledgeBaseName cfg @
             ''/retrieve?api-version='' @ searchApiVersion cfg,
       body = Some (JObj [(''messages'', JArr (map agentMessage ms)),
                          (''knowledgeSourceParams'',
                             JArr [JObj [(''knowledgeSourceName'', JStr (knowledgeSourceName cfg)),
                                         (''kind'', JStr ''searchIndex''),
                                         (''includeReferences'', JBool True),
                                         (''includeReferenceSourceData'', JBool True),
                                         (''alwaysQuerySource'', JBool True),
                                         (''rerankerThreshold'', JNum (5 / 2))]]),
                          (''includeActivity'', JBool True),
                          (''retrievalReasoningEffort'', JObj [(''kind'', JStr ''low'')])]) \<rparr> \<and>
   agentMessage \<lparr> role = r, content = c \<rparr> =
     JObj [(''role'', JStr (case r of User \<Rightarrow> ''user'' | Assistant \<Rightarrow> ''assistant''
                                   | System \<Rightarrow> ''system'')),
           (''content'', JArr [JObj [(''type'', JStr ''text''), (''text'', JStr c)]])] \<and>
   followUpQuestion = ''How do I find lava at night?'' \<and>
   firstQuestion = ''Why do suburban belts display larger December brightening than urban cores even though absolute light levels are higher downtown? Why is the Phoenix nighttime street grid is so sharply visible from space, whereas large stretches of the interstate between midwestern cities remain comparatively dim?'' \<and>
   extractAssistantContent stringify (Some (JStr s)) = s \<and>
   extractAssistantContent stringify (Some (JArr xs)) = stringify (JArr xs) \<and>
   (\<forall>a. \<lparr> role = Assistant, content = a \<rparr> \<in> set messages \<longrightarrow>
      (\<exists>request ms'. last (sent (snd (continueConversation cfg stringify (Inr tok) srv messages w))) =
           \<lparr> req_method = POST,
             url = searchEndpoint cfg @ ''/knowledgebases/'' @ knowledgeBaseName cfg @
                   ''/retrieve?api-version='' @ searchApiVersion cfg,
             body = Some request \<rparr> \<and>
         getField request ''messages'' = Inr (Some (JArr ms')) \<and>
         JObj [(''role'', JStr ''assistant''),
               (''content'', JArr [JObj [(''type'', JStr ''text''), (''text'', JStr a)]])]
           \<in> set ms' \<and>
         last ms' =
           JObj [(''role'', JStr ''user''),
                 (''content'', JArr [JObj [(''type'', JStr ''text''),
                                          (''text'', JStr ''How do I find lava at night?'')]])])) \<and>
   (\<forall>q. \<lparr> role = User, content = q \<rparr> \<in> set messages \<longrightarrow>
      (\<exists>request ms'. last (sent (snd (continueConversation cfg stringify (Inr tok) srv messages w))) =
           \<lparr> req_method = POST,
             url = searchEndpoint cfg @ ''/knowledgebases/'' @ knowledgeBaseName cfg @
                   ''/retrieve?api-version='' @ searchApiVersion cfg,
             body = Some request \<rparr> \<and>
         getField request ''messages'' = Inr (Some (JArr ms')) \<and>
         JObj [(''role'', JStr ''user''),
               (''content'', JArr [JObj [(''type'', JStr ''text''), (''text'', JStr q)]])]
           \<in> set ms')) \<and>
   (srv (remote w) (retrievePost cfg [\<lparr> role = User, content = firstQuestion \<rparr>]) =
        (Inr \<lparr> status = code, payload = Some retrievalResponse \<rparr>, s1) \<and>
    response_ok code \<and>
    getField retrievalResponse ''response'' = Inr response \<and>
    printRecords ''activity'' retrievalResponse = Inr () \<and>
    printRecords ''references'' retrievalResponse = Inr () \<longrightarrow>
      (\<exists>request. sent (snd (runAgenticRetrieval cfg stringify (Inr tok) srv w)) =
        sent w @
        [retrievePost cfg [\<lparr> role = User, content = firstQuestion \<rparr>],
         \<lparr> req_method = POST,
           url = searchEndpoint cfg @ ''/knowledgebases/'' @ knowledgeBaseName cfg @
                 ''/retrieve?api-version='' @ searchApiVersion cfg,
           body = Some request \<rparr>] \<and>
        getField request ''messages'' =
          Inr (Some (JArr
            [JObj [(''role'', JStr ''user''),
                   (''content'', JArr [JObj [(''type'', JStr ''text''), (''text'', JStr firstQuestion)]])],
             JObj [(''role'', JStr ''assistant''),
                   (''content'', JArr [JObj [(''type'', JStr ''text''),
                      (''text'', JStr (extractAssistantContent stringify response))]])],
             JObj [(''role'', JStr ''user''),
                   (''content'', JArr [JObj [(''type'', JStr ''text''),
                      (''text'', JStr ''How do I find lava at night?'')]])]]))))"
proof -
  let ?url = "searchEndpoint cfg @ ''/knowledgebases/'' @ knowledgeBaseName cfg @
             ''/retrieve?api-version='' @ searchApiVersion cfg"
  let ?next = "filter (\<lambda>m. role m \<noteq> System) messages @ [\<lparr> role = User, content = followUpQuestion \<rparr>]"
  have s: "sent (snd (continueConversation cfg stringify (Inr tok) srv messages w)) =
     sent w @ [retrievePost cfg ?next]"
    by (rule continueConversation_sent)
  have post: "retrievePost cfg ms' =
     \<lparr> req_method = POST, url = ?url, body = Some (retrievalRequest cfg ms') \<rparr>" for ms'
    by (simp add: retrievePost_def retrieveUrl_def)
  have msgs: "getField (retrievalRequest cfg ms') ''messages'' = Inr (Some (JArr (map agentMessage ms')))"
    for ms'
    by (simp add: retrievalRequest_def)
  have am: "agentMessage \<lparr> role = r', content = c' \<rparr> =
     JObj [(''role'', JStr (case r' of User \<Rightarrow> ''user'' | Assistant \<Rightarrow> ''assistant''
                                   | System \<Rightarrow> ''system'')),
           (''content'', JArr [JObj [(''type'', JStr ''text''), (''text'', JStr c')]])]" for r' c'
    by (simp add: agentMessage_def role_name_def)
  have fq: "followUpQuestion = ''How do I find lava at night?''"
    by (simp add: followUpQuestion_def)
  have q1: "firstQuestion = ''Why do suburban belts display larger December brightening than urban cores even though absolute light levels are higher downtown? Why is the Phoenix nighttime street grid is so sharply visible from space, whereas large stretches of the interstate between midwestern cities remain comparatively dim?''"
    by (simp add: firstQuestion_def)
  have c2: "retrievePost cfg ms =
     \<lparr> req_method = POST, url = ?url,
       body = Some (JObj [(''messages'', JArr (map agentMessage ms)),
                          (''knowledgeSourceParams'',
                             JArr [JObj [(''knowledgeSourceName'', JStr (knowledgeSourceName cfg)),
                                         (''kind'', JStr ''searchIndex''),
                                         (''includeReferences'', JBool True),
                                         (''includeReferenceSourceData'', JBool True),
                                         (''alwaysQuerySource'', JBool True),
                                         (''rerankerThreshold'', JNum (5 / 2))]]),
                          (''includeActivity'', JBool True),
                          (''retrievalReasoningEffort'', JObj [(''kind'', JStr ''low'')])]) \<rparr>"
    by (simp add: retrievePost_def retrieveUrl_def retrievalRequest_def)
  have ex: "extractAssistantContent stringify (Some (JStr s)) = s \<and>
     extractAssistantContent stringify (Some (JArr xs)) = stringify (JArr xs)"
    by (simp add: extractAssistantContent_def)
  have lastmsg: "last (map agentMessage ?next) =
      JObj [(''role'', JStr ''user''),
            (''content'', JArr [JObj [(''type'', JStr ''text''),
                                     (''text'', JStr ''How do I find lava at night?'')]])]"
    by (simp add: am fq)
  have carried: "\<exists>request ms'. last (sent (snd (continueConversation cfg stringify (Inr tok) srv messages w))) =
           \<lparr> req_method = POST, url = ?url, body = Some request \<rparr> \<and>
         getField request ''messages'' = Inr (Some (JArr ms')) \<and>
         agentMessage m \<in> set ms' \<and>
         last ms' =
           JObj [(''role'', JStr ''user''),
                 (''content'', JArr [JObj [(''type'', JStr ''text''),
                                          (''text'', JStr ''How do I find lava at night?'')]])]"
    if "m \<in> set messages" "role m \<noteq> System" for m
  proof (intro exI conjI)
    show "last (sent (snd (continueConversation cfg stringify (Inr tok) srv messages w))) =
        \<lparr> req_method = POST, url = ?url, body = Some (retrievalRequest cfg ?next) \<rparr>"
      by (simp add: s post)
    show "getField (retrievalRequest cfg ?next) ''messages'' = Inr (Some (JArr (map agentMessage ?next)))"
      by (rule msgs)
    show "agentMessage m \<in> set (map agentMessage ?next)"
      using that by (rule agentMessage_in_request)
    show "last (map agentMessage ?next) =
      JObj [(''role'', JStr ''user''),
            (''content'', JArr [JObj [(''type'', JStr ''text''),
                                     (''text'', JStr ''How do I find lava at night?'')]])]"
      by (rule lastmsg)
  qed
  have c7: "\<forall>a. \<lparr> role = Assistant, content = a \<rparr> \<in> set messages \<longrightarrow>
      (\<exists>request ms'. last (sent (snd (continueConversation cfg stringify (Inr tok) srv messages w))) =
           \<lparr> req_method = POST, url = ?url, body = Some request \<rparr> \<and>
         getField request ''messages'' = Inr (Some (JArr ms')) \<and>
         JObj [(''role'', JStr ''assistant''),
               (''content'', JArr [JObj [(''type'', JStr ''text''), (''text'', JStr a)]])]
           \<in> set ms' \<and>
         last ms' =
           JObj [(''role'', JStr ''user''),
                 (''content'', JArr [JObj [(''type'', JStr ''text''),
                                          (''text'', JStr ''How do I find lava at night?'')]])])"
  proof (intro allI impI)
    fix a
    assume "\<lparr> role = Assistant, content = a \<rparr> \<in> set messages"
    from carried [OF this] show "\<exists>request ms'. last (sent (snd (continueConversation cfg stringify (Inr tok) srv messages w))) =
           \<lparr> req_method = POST, url = ?url, body = Some request \<rparr> \<and>
         getField request ''messages'' = Inr (Some (JArr ms')) \<and>
         JObj [(''role'', JStr ''assistant''),
               (''content'', JArr [JObj [(''type'', JStr ''text''), (''text'', JStr a)]])]
           \<in> set ms' \<and>
         last ms' =
           JObj [(''role'', JStr ''user''),
                 (''content'', JArr [JObj [(''type'', JStr ''text''),
                                          (''text'', JStr ''How do I find lava at night?'')]])]"
      by (simp add: am)
  qed
  have c8: "\<forall>q. \<lparr> role = User, content = q \<rparr> \<in> set messages \<longrightarrow>
      (\<exists>request ms'. last (sent (snd (continueConversation cfg stringify (Inr tok) srv messages w))) =
           \<lparr> req_method = POST, url = ?url, body = Some request \<rparr> \<and>
         getField request ''messages'' = Inr (Some (JArr ms')) \<and>
         JObj [(''role'', JStr ''user''),
               (''content'', JArr [JObj [(''type'', JStr ''text''), (''text'', JStr q)]])]
           \<in> set ms')"
  proof (intro allI impI)
    fix q
    assume "\<lparr> role = User, content = q \<rparr> \<in> set messages"
    from carried [OF this] show "\<exists>request ms'. last (sent (snd (continueConversation cfg stringify (Inr tok) srv messages w))) =
           \<lparr> req_method = POST, url = ?url, body = Some request \<rparr> \<and>
         getField request ''messages'' = Inr (Some (JArr ms')) \<and>
         JObj [(''role'', JStr ''user''),
               (''content'', JArr [JObj [(''type'', JStr ''text''), (''text'', JStr q)]])]
           \<in> set ms'"
      by (simp add: am) blast
  qed
  have c9: "\<exists>request. sent (snd (runAgenticRetrieval cfg stringify (Inr tok) srv w)) =
        sent w @
        [retrievePost cfg [\<lparr> role = User, content = firstQuestion \<rparr>],
         \<lparr> req_method = POST, url = ?url, body = Some request \<rparr>] \<and>
        getField request ''messages'' =
          Inr (Some (JArr
            [JObj [(''role'', JStr ''user''),
                   (''content'', JArr [JObj [(''type'', JStr ''text''), (''text'', JStr firstQuestion)]])],
             JObj [(''role'', JStr ''assistant''),
                   (''content'', JArr [JObj [(''type'', JStr ''text''),
                      (''text'', JStr (extractAssistantContent stringify response))]])],
             JObj [(''role'', JStr ''user''),
                   (''content'', JArr [JObj [(''type'', JStr ''text''),
                      (''text'', JStr ''How do I find lava at night?'')]])]]))"
    if a: "srv (remote w) (retrievePost cfg [\<lparr> role = User, content = firstQuestion \<rparr>]) =
        (Inr \<lparr> status = code, payload = Some retrievalResponse \<rparr>, s1) \<and>
      response_ok code \<and>
      getField retrievalResponse ''response'' = Inr response \<and>
      printRecords ''activity'' retrievalResponse = Inr () \<and>
      printRecords ''references'' retrievalResponse = Inr ()"
  proof -
    let ?w1 = "\<lparr> remote = s1,
                 sent = sent w @ [retrievePost cfg [\<lparr> role = User, content = firstQuestion \<rparr>]] \<rparr>"
    let ?conv = "[\<lparr> role = User, content = firstQuestion \<rparr>,
            \<lparr> role = Assistant, content = extractAssistantContent stringify response \<rparr>,
            \<lparr> role = User, content = followUpQuestion \<rparr>]"
    from a have call: "callAgenticRetrieval cfg (Inr tok) srv [\<lparr> role = User, content = firstQuestion \<rparr>] w =
        (Inr retrievalResponse, ?w1)"
      by (simp add: callAgenticRetrieval_def fetch_def)
    with a have "runAgenticRetrieval cfg stringify (Inr tok) srv w =
      continueConversation cfg stringify (Inr tok) srv
        (initialMessages @ [\<lparr> role = Assistant, content = extractAssistantContent stringify response \<rparr>]) ?w1"
      by (simp add: runAgenticRetrieval_def initialMessages_def Let_def)
    then have "sent (snd (runAgenticRetrieval cfg stringify (Inr tok) srv w)) =
        sent w @ [retrievePost cfg [\<lparr> role = User, content = firstQuestion \<rparr>],
                  \<lparr> req_method = POST, url = ?url, body = Some (retrievalRequest cfg ?conv) \<rparr>]"
      by (simp add: continueConversation_sent initialMessages_def post)
    moreover have "getField (retrievalRequest cfg ?conv) ''messages'' =
          Inr (Some (JArr
            [JObj [(''role'', JStr ''user''),
                   (''content'', JArr [JObj [(''type'', JStr ''text''), (''text'', JStr firstQuestion)]])],
             JObj [(''role'', JStr ''assistant''),
                   (''content'', JArr [JObj [(''type'', JStr ''text''),
                      (''text'', JStr (extractAssistantContent stringify response))]])],
             JObj [(''role'', JStr ''user''),
                   (''content'', JArr [JObj [(''type'', JStr ''text''),
                      (''text'', JStr ''How do I find lava at night?'')]])]]))"
      by (simp add: msgs am fq)
    ultimately show ?thesis by blast
  qed
  from s c2 am fq q1 ex c7 c8 c9 show ?thesis by blast
qed

theorem second_query_carries_context_witness:
  "\<exists>request. sent (snd (runAgenticRetrieval test_config (\<lambda>j. ''[]'') (Inr ''t'') scripted_service
       \<lparr> remote = [Inr first_reply, Inr first_reply], sent = [] \<rparr>)) =
     [retrievePost test_config [\<lparr> role = User, content = firstQuestion \<rparr>],
      \<lparr> req_method = POST,
        url = ''https://s/knowledgebases/earth-knowledge-base/retrieve?api-version=2025-11-01-preview'',
        body = Some request \<rparr>] \<and>
     getField request ''messages'' =
       Inr (Some (JArr
         [JObj [(''role'', JStr ''user''),
                (''content'', JArr [JObj [(''type'', JStr ''text''), (''text'', JStr firstQuestion)]])],
          JObj [(''role'', JStr ''assistant''),
                (''content'', JArr [JObj [(''type'', JStr ''text''), (''text'', JStr ''Because.'')]])],
          JObj [(''role'', JStr ''user''),
                (''content'', JArr [JObj [(''type'', JStr ''text''),
                   (''text'', JStr ''How do I find lava at night?'')]])]]))"
proof -
  let ?w = "\<lparr> remote = [Inr first_reply, Inr first_reply], sent = [] \<rparr>
              :: (js_error + http_response) list world"
  let ?r = "JObj [(''response'', JStr ''Because.'')]"
  have "scripted_service (remote ?w)
          (retrievePost test_config [\<lparr> role = User, content = firstQuestion \<rparr>]) =
          (Inr \<lparr> status = 200, payload = Some ?r \<rparr>, [Inr first_reply]) \<and>
        response_ok 200 \<and>
        getField ?r ''response'' = Inr (Some (JStr ''Because.'')) \<and>
        printRecords ''activity'' ?r = Inr () \<and> printRecords ''references'' ?r = Inr ()"
    by (simp add: scripted_service_def first_reply_def response_ok_def printRecords_def)
  from second_query_carries_context [of test_config "\<lambda>j. ''[]''" _ scripted_service _ ?w,
      THEN conjunct2, THEN conjunct2, THEN conjunct2, THEN conjunct2, THEN conjunct2,
      THEN conjunct2, THEN conjunct2, THEN conjunct2, THEN conjunct2, rule_format, OF this,
      of "''t''"]
  show ?thesis by (simp add: extractAssistantContent_def test_config_def)
qed

section \<open>Properties of the upload script\<close>

lemma run_calls_subset: "set (fst (run_calls resolves cs)) \<subseteq> set cs"
  by (induction cs) (auto split: prod.splits)

lemma count_Call_map: "count_list (map Call t) (Call c) = count_list t c"
  by (induction t) auto

lemma count_Call_Poll: "count_list (map Poll p) (Call c) = 0"
  by (induction p) auto

lemma count_list_append: "count_list (xs @ ys) x = count_list xs x + count_list ys x"
  by (induction xs) auto

lemma count_notin: "x \<notin> set xs \<Longrightarrow> count_list xs x = 0"
  by (induction xs) auto

lemma retrieval_no_dispose: "count_list (fst (run_calls resolves retrieval_calls)) Dispose = 0"
proof -
  have "Dispose \<notin> set retrieval_calls" by (simp add: retrieval_calls_def)
  with run_calls_subset [of resolves retrieval_calls]
  have "Dispose \<notin> set (fst (run_calls resolves retrieval_calls))" by blast
  then show ?thesis by (rule count_notin)
qed

lemma upload_calls_run:
  "run_calls resolves upload_calls =
     (if \<not> resolves CreateOrUpdateIndex then ([CreateOrUpdateIndex], False)
      else if \<not> resolves FetchDocuments then ([CreateOrUpdateIndex, FetchDocuments], False)
      else if \<not> resolves NewBufferedSender
        then ([CreateOrUpdateIndex, FetchDocuments, NewBufferedSender], False)
      else if \<not> resolves UploadDocuments
        then ([CreateOrUpdateIndex, FetchDocuments, NewBufferedSender, UploadDocuments], False)
      else if \<not> resolves Flush
        then ([CreateOrUpdateIndex, FetchDocuments, NewBufferedSender, UploadDocuments, Flush], False)
      else (upload_calls, resolves Dispose))"
  by (simp add: upload_calls_def)

text \<open>The script \<^verbatim>\<open>src/index.ts\<close> never calls \<^verbatim>\<open>flush\<close> or \<^verbatim>\<open>dispose\<close>.\<close>

lemma quickstart_script_no_dispose:
  "Call Dispose \<notin> set (fst (quickstart_script resolves)) \<and>
   Call Flush \<notin> set (fst (quickstart_script resolves))"
proof -
  have "Dispose \<notin> set quickstart_calls \<and> Flush \<notin> set quickstart_calls"
    by (simp add: quickstart_calls_def)
  with run_calls_subset [of resolves quickstart_calls]
  have a: "Dispose \<notin> set (fst (run_calls resolves quickstart_calls)) \<and>
           Flush \<notin> set (fst (run_calls resolves quickstart_calls))"
    by blast
  have "Dispose \<notin> set retrieval_calls \<and> Flush \<notin> set retrieval_calls"
    by (simp add: retrieval_calls_def)
  with run_calls_subset [of resolves retrieval_calls]
  have b: "Dispose \<notin> set (fst (run_calls resolves retrieval_calls)) \<and>
           Flush \<notin> set (fst (run_calls resolves retrieval_calls))"
    by blast
  from a b show ?thesis
    by (auto simp: quickstart_script_def split: prod.splits bool.splits)
qed

text \<open>
  Claim C4, as stated, fails: when \<^verbatim>\<open>uploadDocuments\<close> throws, the run ends after the
  sender was constructed and \<^verbatim>\<open>dispose\<close> is never called.
\<close>

theorem upload_script_dispose_missed:
  "upload_script (\<lambda>c. c \<noteq> UploadDocuments) (\<lambda>k. 2) [JObj [], JObj []] =
     Some ([Call CreateOrUpdateIndex, Call FetchDocuments, Call NewBufferedSender,
            Call UploadDocuments], False) \<and>
   count_list [Call CreateOrUpdateIndex, Call FetchDocuments, Call NewBufferedSender,
               Call UploadDocuments] (Call Dispose) = 0"
  by (simp add: upload_script_def upload_calls_def)

text \<open>
  Claim C4, amended. In a run of the upload script that returns, when every call up to
  \<^verbatim>\<open>flush\<close> returns, \<^verbatim>\<open>dispose\<close> is called exactly once, right after the one call of
  \<^verbatim>\<open>flush\<close>, whatever the later calls do; when \<^verbatim>\<open>uploadDocuments\<close> or \<^verbatim>\<open>flush\<close>
  throws after the sender was constructed, the run ends without a call of \<^verbatim>\<open>dispose\<close>.
\<close>

theorem upload_script_dispose:
  assumes "upload_script resolves reported documents = Some (trace, done)"
  shows "(resolves CreateOrUpdateIndex \<and> resolves FetchDocuments \<and> resolves NewBufferedSender \<and>
          resolves UploadDocuments \<and> resolves Flush \<longrightarrow>
            count_list trace (Call Dispose) = 1 \<and> count_list trace (Call Flush) = 1 \<and>
            (\<exists>rest. trace = map Call [CreateOrUpdateIndex, FetchDocuments, NewBufferedSender,
                                       UploadDocuments, Flush, Dispose] @ rest)) \<and>
         (resolves CreateOrUpdateIndex \<and> resolves FetchDocuments \<and> resolves NewBufferedSender \<and>
          (\<not> resolves UploadDocuments \<or> \<not> resolves Flush) \<longrightarrow>
            Call NewBufferedSender \<in> set trace \<and> count_list trace (Call Dispose) = 0 \<and> \<not> done)"
proof (rule conjI; rule impI)
  assume ok: "resolves CreateOrUpdateIndex \<and> resolves FetchDocuments \<and> resolves NewBufferedSender \<and>
          resolves UploadDocuments \<and> resolves Flush"
  then have up: "run_calls resolves upload_calls = (upload_calls, resolves Dispose)"
    by (simp add: upload_calls_run)
  show "count_list trace (Call Dispose) = 1 \<and> count_list trace (Call Flush) = 1 \<and>
            (\<exists>rest. trace = map Call [CreateOrUpdateIndex, FetchDocuments, NewBufferedSender,
                                       UploadDocuments, Flush, Dispose] @ rest)"
  proof (cases "resolves Dispose")
    case False
    with assms up have "trace = map Call upload_calls"
      by (simp add: upload_script_def)
    then show ?thesis by (simp add: upload_calls_def)
  next
    case True
    with assms up obtain count polled t2 where
      t: "trace = map Call upload_calls @ map Poll polled @ map Call t2"
      and t2: "t2 = fst (run_calls resolves retrieval_calls)"
      by (auto simp: upload_script_def split: option.splits prod.splits)
    have "count_list t2 Dispose = 0"
      unfolding t2 by (rule retrieval_no_dispose)
    moreover have "count_list t2 Flush = 0"
    proof -
      have "Flush \<notin> set retrieval_calls" by (simp add: retrieval_calls_def)
      with run_calls_subset [of resolves retrieval_calls] have "Flush \<notin> set t2"
        unfolding t2 by blast
      then show ?thesis by (rule count_notin)
    qed
    ultimately show ?thesis
      unfolding t
      by (simp add: count_list_append count_Call_map count_Call_Poll upload_calls_def)
  qed
next
  assume bad: "resolves CreateOrUpdateIndex \<and> resolves FetchDocuments \<and> resolves NewBufferedSender \<and>
          (\<not> resolves UploadDocuments \<or> \<not> resolves Flush)"
  then have "run_calls resolves upload_calls =
      ([CreateOrUpdateIndex, FetchDocuments, NewBufferedSender, UploadDocuments], False) \<or>
    run_calls resolves upload_calls =
      ([CreateOrUpdateIndex, FetchDocuments, NewBufferedSender, UploadDocuments, Flush], False)"
    by (auto simp: upload_calls_run)
  with assms show "Call NewBufferedSender \<in> set trace \<and> count_list trace (Call Dispose) = 0 \<and> \<not> done"
    by (auto simp: upload_script_def)
qed

theorem upload_script_dispose_witness:
  "upload_script (\<lambda>c. c \<noteq> DeleteIndex) (\<lambda>k. 2) [JObj [], JObj []] =
     Some (map Call upload_calls @
           map Poll [Delay 4000, GetDocumentsCount 2] @
           map Call retrieval_calls, False) \<and>
   count_list (map Call upload_calls @ map Poll [Delay 4000, GetDocumentsCount 2] @
               map Call retrieval_calls) (Call Dispose) = 1"
proof -
  have h: "upload_script (\<lambda>c. c \<noteq> DeleteIndex) (\<lambda>k. 2) [JObj [], JObj []] =
     Some (map Call upload_calls @
           map Poll [Delay 4000, GetDocumentsCount 2] @
           map Call retrieval_calls, False)"
    by (simp add: upload_script_def upload_calls_def retrieval_calls_def awaitConvergence_def
        poll_loop.simps WAIT_TIME_def)
  from upload_script_dispose [OF h] h show ?thesis by simp
qed

end
